theory Spec2Isabelle
  imports Main
begin

section \<open>Values shared by the embed block\<close>

text \<open>
  The embed block of \<^verbatim>\<open>src/blocks/library/embed/index.js\<close> is modelled. A JavaScript
  string is a \<open>string\<close>; a value that may be \<^verbatim>\<open>undefined\<close> is an \<open>option\<close>, with
  \<open>None\<close> for \<^verbatim>\<open>undefined\<close>. A string is truthy exactly when it is defined and not empty.
\<close>

datatype js_error = TypeError

definition truthy :: "string option \<Rightarrow> bool" where
  "truthy v = (case v of None \<Rightarrow> False | Some s \<Rightarrow> s \<noteq> [])"

text \<open>
  Elements built by JSX. A property value is a string, \<^verbatim>\<open>undefined\<close>, a boolean, one of
  the component's callbacks, a list of child nodes (a rich-text value) or the markup handed
  to \<^verbatim>\<open>dangerouslySetInnerHTML\<close>. The node \<open>Nothing\<close> is a \<^verbatim>\<open>false\<close> or \<^verbatim>\<open>null\<close> child, which
  renders nothing.
\<close>

datatype callback = DoServerSideRender | UpdateAlignment | UrlChanged | CaptionChanged

datatype 'n propval = Str string | Undef | Flag bool | Callback callback | Nodes "'n list" | InnerHTML string

datatype node = Text string | Nothing | Element string "(string \<times> node propval) list" "node list"

definition opt_prop :: "string option \<Rightarrow> node propval" where
  "opt_prop v = (case v of None \<Rightarrow> Undef | Some s \<Rightarrow> Str s)"

text \<open>
  The functions the module imports from outside the repository are parameters of the model:
  \<^item> \<open>RegExp_test pattern flags s\<close>: \<^verbatim>\<open>s.match( new RegExp( pattern, flags ) )\<close> is not null;
  \<^item> \<open>kebabCase\<close> and \<open>toLower\<close>: the lodash functions, on strings;
  \<^item> \<open>parse_host s\<close>: \<^verbatim>\<open>parse( s ).host\<close> of the \<^verbatim>\<open>url\<close> package, \<open>None\<close> when it is null;
  \<^item> \<open>renderToString\<close> of \<^verbatim>\<open>@wordpress/element\<close>;
  \<^item> \<open>translate\<close> (written \<^verbatim>\<open>__\<close> in the source) and \<open>sprintf\<close> of \<^verbatim>\<open>@wordpress/i18n\<close>,
    the latter with one argument after the format.
\<close>

record lib =
  RegExp_test :: "string \<Rightarrow> string \<Rightarrow> string \<Rightarrow> bool"
  kebabCase :: "string \<Rightarrow> string"
  toLower :: "string \<Rightarrow> string"
  parse_host :: "string \<Rightarrow> string option"
  renderToString :: "node \<Rightarrow> string"
  translate :: "string \<Rightarrow> string"
  sprintf :: "string \<Rightarrow> string \<Rightarrow> string"

section \<open>The pattern registry and the resolver\<close>

text \<open>
  \<^verbatim>\<open>blockPatterns\<close> is an object used as a map from block names to pattern lists. Its keys
  are block names of the form \<^verbatim>\<open>namespace/name\<close>, never integer-like, so \<^verbatim>\<open>for ... in\<close>
  visits them in the order in which they were first assigned: the registry is an association
  list in that order, with distinct keys.
\<close>

type_synonym registry = "(string \<times> string list) list"

text \<open>\<^verbatim>\<open>blockPatterns[ k ] = v\<close>: an existing key keeps its place, a new key goes last.\<close>

fun assign :: "string \<Rightarrow> string list \<Rightarrow> registry \<Rightarrow> registry" where
  "assign k v [] = [(k, v)]"
| "assign k v ((k', v') # rest) =
     (if k' = k then (k, v) # rest else (k', v') # assign k v rest)"

text \<open>
  \<^verbatim>\<open>matchesPatterns( url, patterns )\<close>: \<^verbatim>\<open>patterns.some\<close> stops at the first pattern that
  matches. The callback calls \<^verbatim>\<open>url.match\<close>, which throws a TypeError when \<^verbatim>\<open>url\<close> is
  \<^verbatim>\<open>undefined\<close>; with no pattern the callback never runs.
\<close>

fun matchesPatterns :: "'a lib_scheme \<Rightarrow> string option \<Rightarrow> string list \<Rightarrow> js_error + bool" where
  "matchesPatterns L url [] = Inr False"
| "matchesPatterns L None (pattern # patterns) = Inl TypeError"
| "matchesPatterns L (Some u) (pattern # patterns) =
     (if RegExp_test L pattern ''i'' u then Inr True else matchesPatterns L (Some u) patterns)"

text \<open>
  \<^verbatim>\<open>findBlock( url )\<close>: the loop over the keys of the registry, returning from inside at the
  first block whose patterns match, and \<^verbatim>\<open>'core/embed'\<close> after the loop.
\<close>

fun findBlock :: "'a lib_scheme \<Rightarrow> registry \<Rightarrow> string option \<Rightarrow> js_error + string" where
  "findBlock L [] url = Inr ''core/embed''"
| "findBlock L ((blockName, patterns) # rest) url =
     (case matchesPatterns L url patterns of
        Inl e \<Rightarrow> Inl e
      | Inr True \<Rightarrow> Inr blockName
      | Inr False \<Rightarrow> findBlock L rest url)"

subsection \<open>Registration\<close>

text \<open>
  The argument of \<^verbatim>\<open>getEmbedBlockDefinition\<close>: a name, the title and icon of its settings,
  and the patterns, which most definitions give and \<^verbatim>\<open>core-embed/wordpress\<close> leaves out.
\<close>

record options =
  opt_name :: string
  opt_title :: string
  opt_icon :: string
  opt_patterns :: "string list option"

text \<open>
  What \<^verbatim>\<open>getEmbedBlockSettings\<close> closes over: the destructured parameter defaults an absent
  \<^verbatim>\<open>patterns\<close> to the empty array.
\<close>

record settings =
  title :: string
  icon :: string
  patterns :: "string list"

definition getEmbedBlockSettings :: "string \<Rightarrow> string \<Rightarrow> string list option \<Rightarrow> settings" where
  "getEmbedBlockSettings t i ps =
     \<lparr>title = t, icon = i, patterns = (case ps of None \<Rightarrow> [] | Some l \<Rightarrow> l)\<rparr>"

text \<open>
  \<^verbatim>\<open>getEmbedBlockDefinition( options )\<close> returns the name with the settings and stores the
  patterns in the registry when there are any; the registry after the call is the second
  component.
\<close>

definition getEmbedBlockDefinition :: "options \<Rightarrow> registry \<Rightarrow> (string \<times> settings) \<times> registry" where
  "getEmbedBlockDefinition opts blockPatterns =
     ((opt_name opts, getEmbedBlockSettings (opt_title opts) (opt_icon opts) (opt_patterns opts)),
      (case opt_patterns opts of
         None \<Rightarrow> blockPatterns
       | Some ps \<Rightarrow> if length ps > 0 then assign (opt_name opts) ps blockPatterns else blockPatterns))"

text \<open>The registry after a list of definitions has been evaluated in order, as a module does.\<close>

fun load :: "options list \<Rightarrow> registry \<Rightarrow> registry" where
  "load [] blockPatterns = blockPatterns"
| "load (opts # rest) blockPatterns = load rest (snd (getEmbedBlockDefinition opts blockPatterns))"

text \<open>The definitions of the module: the arrays \<^verbatim>\<open>common\<close> and \<^verbatim>\<open>others\<close>, in source order.
  In a JavaScript string literal \<^verbatim>\<open>\/\<close> and \<^verbatim>\<open>\.\<close> denote the characters \<^verbatim>\<open>/\<close> and \<^verbatim>\<open>.\<close>,
  so the pattern text that reaches \<^verbatim>\<open>RegExp\<close> holds no backslash.\<close>

definition mk :: "string \<Rightarrow> string \<Rightarrow> string \<Rightarrow> string list option \<Rightarrow> options" where
  "mk n t i ps = \<lparr>opt_name = n, opt_title = t, opt_icon = i, opt_patterns = ps\<rparr>"

definition common :: "options list" where
  "common =
   [mk ''core-embed/twitter'' ''Twitter'' ''embed-post'' (Some [''^https?://(www.)?twitter.com/.+'']),
    mk ''core-embed/youtube'' ''YouTube'' ''embed-video''
      (Some [''^https?://((m|www).)?youtube.com/.+'', ''youtu.be/.+'']),
    mk ''core-embed/facebook'' ''Facebook'' ''embed-post'' (Some [''^https?://www.facebook.com/.+'']),
    mk ''core-embed/instagram'' ''Instagram'' ''embed-photo''
      (Some [''^https?://(www.)?instagr(.am|am.com)/.+'']),
    mk ''core-embed/wordpress'' ''WordPress'' ''embed-post'' None,
    mk ''core-embed/soundcloud'' ''SoundCloud'' ''embed-audio''
      (Some [''^https?://(www.)?soundcloud.com/.+'']),
    mk ''core-embed/spotify'' ''Spotify'' ''embed-audio'' (Some [''^https?://(open|play).spotify.com/.+'']),
    mk ''core-embed/flickr'' ''Flickr'' ''embed-photo''
      (Some [''^https?://(www.)?flickr.com/.+'', ''flic.kr/.+'']),
    mk ''core-embed/vimeo'' ''Vimeo'' ''embed-video'' (Some [''^https?://(www.)?vimeo.com/.+''])]"

definition others :: "options list" where
  "others =
   [mk ''core-embed/animoto'' ''Animoto'' ''embed-video''
      (Some [''^https?://(www.)?(animoto|video214).com/.+'']),
    mk ''core-embed/cloudup'' ''Cloudup'' ''embed-post'' (Some [''^https?://cloudup.com/.+'']),
    mk ''core-embed/collegehumor'' ''CollegeHumor'' ''embed-video''
      (Some [''^https?://(www.)?collegehumor.com/.+'']),
    mk ''core-embed/dailymotion'' ''Dailymotion'' ''embed-video''
      (Some [''^https?://(www.)?dailymotion.com/.+'']),
    mk ''core-embed/funnyordie'' ''Funny or Die'' ''embed-video'' (Some [''(www.)?funnyordie.com/.+'']),
    mk ''core-embed/hulu'' ''Hulu'' ''embed-video'' (Some [''^https?://(www.)?hulu.com/.+'']),
    mk ''core-embed/imgur'' ''Imgur'' ''embed-photo'' (Some [''^https?://(.+.)?imgur.com/.+'']),
    mk ''core-embed/issuu'' ''Issuu'' ''embed-post'' (Some [''^https?://(www.)?issuu.com/.+'']),
    mk ''core-embed/kickstarter'' ''Kickstarter'' ''embed-post''
      (Some [''^https?://(www.)?kickstarter.com/.+'', ''^https?://kck.st/.+'']),
    mk ''core-embed/meetup-com'' ''Meetup.com'' ''embed-post''
      (Some [''^https?://(www.)?meetu(.ps|p.com)/.+'']),
    mk ''core-embed/mixcloud'' ''Mixcloud'' ''embed-audio'' (Some [''^https?://(www.)?mixcloud.com/.+'']),
    mk ''core-embed/photobucket'' ''Photobucket'' ''embed-photo''
      (Some [''^http://g?i*.photobucket.com/.+'']),
    mk ''core-embed/polldaddy'' ''Polldaddy'' ''embed-post'' (Some [''^https?://(www.)?mixcloud.com/.+'']),
    mk ''core-embed/reddit'' ''Reddit'' ''embed-post'' (Some [''^https?://(www.)?reddit.com/.+'']),
    mk ''core-embed/reverbnation'' ''ReverbNation'' ''embed-audio''
      (Some [''^https?://(www.)?reverbnation.com/.+'']),
    mk ''core-embed/screencast'' ''Screencast'' ''embed-video''
      (Some [''^https?://(www.)?screencast.com/.+'']),
    mk ''core-embed/scribd'' ''Scribd'' ''embed-post'' (Some [''^https?://(www.)?scribd.com/.+'']),
    mk ''core-embed/slideshare'' ''Slideshare'' ''embed-post''
      (Some [''^https?://(.+?.)?slideshare.net/.+'']),
    mk ''core-embed/smugmug'' ''SmugMug'' ''embed-photo'' (Some [''^https?://(www.)?smugmug.com/.+'']),
    mk ''core-embed/speaker'' ''Speaker'' ''embed-audio'' (Some [''^https?://(www.)?speakerdeck.com/.+'']),
    mk ''core-embed/ted'' ''TED'' ''embed-video'' (Some [''^https?://(www.|embed.)?ted.com/.+'']),
    mk ''core-embed/tumblr'' ''Tumblr'' ''embed-post'' (Some [''^https?://(www.)?tumblr.com/.+'']),
    mk ''core-embed/videopress'' ''VideoPress'' ''embed-video'' (Some [''^https?://videopress.com/.+'']),
    mk ''core-embed/wordpress-tv'' ''WordPress.tv'' ''embed-video''
      (Some [''^https?://wordpress.tv/.+''])]"

definition blockPatterns :: registry where
  "blockPatterns = load (common @ others) []"

section \<open>A model of the regular expressions the module uses\<close>

text \<open>
  For runs on concrete URLs, \<^verbatim>\<open>RegExp\<close> is modelled on the fragment of the pattern language
  that the patterns of the module are written in: literal characters, \<^verbatim>\<open>.\<close>, \<^verbatim>\<open>^\<close>, groups,
  \<^verbatim>\<open>|\<close>, and the quantifiers \<^verbatim>\<open>?\<close>, \<^verbatim>\<open>+\<close> and \<^verbatim>\<open>*\<close> with their lazy forms. A pattern outside
  the fragment has no parse. Matching is by derivatives; \<open>Bol\<close> is the assertion \<^verbatim>\<open>^\<close>,
  which holds at the start of the input only, and \<open>AnyCh\<close> (any character at all) serves the
  search for a match that may start anywhere.
\<close>

datatype re = Nul | Eps | Bol | Lit char | Dot | AnyCh | Cat re re | Or re re | Star re

datatype qstate = NoAtom | Atom | Quantified | Lazy

type_synonym frame = "re list \<times> re list"

definition seq_re :: "re list \<Rightarrow> re" where
  "seq_re atoms = fold Cat atoms Eps"

definition close_frame :: "frame \<Rightarrow> re" where
  "close_frame f = fold Or (fst f) (seq_re (snd f))"

definition quantify :: "char \<Rightarrow> re \<Rightarrow> re" where
  "quantify c r = (if c = CHR ''?'' then Or r Eps else if c = CHR ''+'' then Cat r (Star r) else Star r)"

fun parse_step :: "char \<Rightarrow> frame list \<times> qstate \<Rightarrow> (frame list \<times> qstate) option" where
  "parse_step c ([], q) = None"
| "parse_step c ((alts, atoms) # outer, q) =
     (if c = CHR ''('' then Some (([], []) # (alts, atoms) # outer, NoAtom)
      else if c = CHR '')'' then
        (case outer of
           [] \<Rightarrow> None
         | (alts', atoms') # outer' \<Rightarrow> Some ((alts', close_frame (alts, atoms) # atoms') # outer', Atom))
      else if c = CHR ''|'' then Some ((seq_re atoms # alts, []) # outer, NoAtom)
      else if c = CHR ''?'' \<or> c = CHR ''+'' \<or> c = CHR ''*'' then
        (case atoms of
           a # before \<Rightarrow>
             if q = Atom then Some ((alts, quantify c a # before) # outer, Quantified)
             else if q = Quantified \<and> c = CHR ''?'' then Some ((alts, atoms) # outer, Lazy)
             else None
         | [] \<Rightarrow> None)
      else if c = CHR ''.'' then Some ((alts, Dot # atoms) # outer, Atom)
      else if c = CHR ''^'' then Some ((alts, Bol # atoms) # outer, NoAtom)
      else if c = CHR 0x5C \<or> c \<in> set ''[]{}$'' then None
      else Some ((alts, Lit c # atoms) # outer, Atom))"

fun parse_from :: "string \<Rightarrow> frame list \<times> qstate \<Rightarrow> (frame list \<times> qstate) option" where
  "parse_from [] st = Some st"
| "parse_from (c # cs) st = (case parse_step c st of None \<Rightarrow> None | Some st' \<Rightarrow> parse_from cs st')"

definition parse_re :: "string \<Rightarrow> re option" where
  "parse_re p =
     (case parse_from p ([([], [])], NoAtom) of
        Some ([f], q) \<Rightarrow> Some (close_frame f)
      | _ \<Rightarrow> None)"

definition lower :: "char \<Rightarrow> char" where
  "lower c = (let n = of_char c :: nat in if 65 \<le> n \<and> n \<le> 90 then char_of (n + 32) else c)"

fun nullable :: "bool \<Rightarrow> re \<Rightarrow> bool" where
  "nullable b Nul = False"
| "nullable b Eps = True"
| "nullable b Bol = b"
| "nullable b (Lit d) = False"
| "nullable b Dot = False"
| "nullable b AnyCh = False"
| "nullable b (Cat r s) = (nullable b r \<and> nullable b s)"
| "nullable b (Or r s) = (nullable b r \<or> nullable b s)"
| "nullable b (Star r) = True"

definition cat :: "re \<Rightarrow> re \<Rightarrow> re" where
  "cat r s = (if r = Nul \<or> s = Nul then Nul else if r = Eps then s else Cat r s)"

definition alt :: "re \<Rightarrow> re \<Rightarrow> re" where
  "alt r s = (if r = Nul then s else if s = Nul \<or> r = s then r else Or r s)"

fun deriv :: "bool \<Rightarrow> bool \<Rightarrow> char \<Rightarrow> re \<Rightarrow> re" where
  "deriv ci b c Nul = Nul"
| "deriv ci b c Eps = Nul"
| "deriv ci b c Bol = Nul"
| "deriv ci b c (Lit d) = (if (if ci then lower c = lower d else c = d) then Eps else Nul)"
| "deriv ci b c Dot = (if c = CHR 0x0A \<or> c = CHR 0x0D then Nul else Eps)"
| "deriv ci b c AnyCh = Eps"
| "deriv ci b c (Cat r s) =
     alt (cat (deriv ci b c r) s) (if nullable b r then deriv ci b c s else Nul)"
| "deriv ci b c (Or r s) = alt (deriv ci b c r) (deriv ci b c s)"
| "deriv ci b c (Star r) = cat (deriv ci b c r) (Star r)"

fun run :: "bool \<Rightarrow> bool \<Rightarrow> re \<Rightarrow> string \<Rightarrow> bool" where
  "run ci b r [] = nullable b r"
| "run ci b r (c # cs) = run ci False (deriv ci b c r) cs"

text \<open>
  \<^verbatim>\<open>s.match( new RegExp( pattern, flags ) )\<close> is not null: some substring of \<open>s\<close> matches. The
  only flag of the fragment is \<^verbatim>\<open>i\<close>, under which ASCII letters match in either case.
\<close>

definition regexp_test :: "string \<Rightarrow> string \<Rightarrow> string \<Rightarrow> bool" where
  "regexp_test pattern flags s =
     (case parse_re pattern of
        None \<Rightarrow> False
      | Some r \<Rightarrow> list_all (\<lambda>f. f = CHR ''i'') flags \<and>
          run (CHR ''i'' \<in> set flags) True (Cat (Star AnyCh) (Cat r (Star AnyCh))) s)"

section \<open>The edit component\<close>

subsection \<open>Data\<close>

text \<open>
  The persisted attributes of a block. Only \<^verbatim>\<open>caption\<close> has a default (the empty array),
  so the other four may be \<^verbatim>\<open>undefined\<close>.
\<close>

record attributes =
  url :: "string option"
  caption :: "node list"
  align :: "string option"
  attr_type :: "string option"
  attr_providerNameSlug :: "string option"

text \<open>
  \<^verbatim>\<open>this.state\<close>. The constructor sets five fields; \<^verbatim>\<open>providerNameSlug\<close> exists only once
  the success continuation has stored it.
\<close>

record state =
  html :: string
  type :: string
  error :: bool
  fetching :: bool
  providerName :: string
  providerNameSlug :: "string option"

definition initial_state :: state where
  "initial_state =
     \<lparr>html = [], type = [], error = False, fetching = False, providerName = [],
      providerNameSlug = None\<rparr>"

record props =
  name :: string
  attributes :: attributes
  isSelected :: bool
  className :: "string option"

text \<open>The argument of a \<^verbatim>\<open>setState\<close> call: the fields it gives.\<close>

record patch =
  set_html :: "string option"
  set_type :: "string option"
  set_providerNameSlug :: "string option"
  set_error :: "bool option"
  set_fetching :: "bool option"

definition no_patch :: patch where
  "no_patch =
     \<lparr>set_html = None, set_type = None, set_providerNameSlug = None, set_error = None,
      set_fetching = None\<rparr>"

text \<open>
  \<^verbatim>\<open>createBlock( name, { url } )\<close> comes from the block API; the model keeps its two
  arguments.
\<close>

datatype block = CreateBlock string "string option"

text \<open>
  What the component does to the outside, in the order it does it: \<^verbatim>\<open>event.preventDefault()\<close>,
  \<^verbatim>\<open>this.setState\<close>, \<^verbatim>\<open>setAttributes( { type, providerNameSlug } )\<close>, \<^verbatim>\<open>this.props.onReplace\<close>
  and the request \<^verbatim>\<open>wpEmbedAPI( url )\<close>.
\<close>

datatype effect =
    PreventDefault
  | SetState patch
  | SetAttributes string string
  | OnReplace block
  | ApiRequest "string option"

record component =
  props :: props
  state :: state
  unmounting :: bool
  log :: "effect list"

definition emit :: "effect \<Rightarrow> component \<Rightarrow> component" where
  "emit e c = c\<lparr>log := log c @ [e]\<rparr>"

definition merge :: "patch \<Rightarrow> state \<Rightarrow> state" where
  "merge p st =
     st\<lparr>html := (case set_html p of None \<Rightarrow> html st | Some v \<Rightarrow> v),
        type := (case set_type p of None \<Rightarrow> type st | Some v \<Rightarrow> v),
        providerNameSlug := (case set_providerNameSlug p of None \<Rightarrow> providerNameSlug st | Some v \<Rightarrow> Some v),
        error := (case set_error p of None \<Rightarrow> error st | Some v \<Rightarrow> v),
        fetching := (case set_fetching p of None \<Rightarrow> fetching st | Some v \<Rightarrow> v)\<rparr>"

text \<open>\<^verbatim>\<open>this.setState( p )\<close> merges the given fields into the state.\<close>

definition setState :: "patch \<Rightarrow> component \<Rightarrow> component" where
  "setState p c = emit (SetState p) (c\<lparr>state := merge p (state c)\<rparr>)"

text \<open>The body of the oEmbed proxy's answer: every field may be missing.\<close>

record response =
  r_html :: "string option"
  r_result :: "string option"
  r_type :: "string option"
  r_provider_name :: "string option"
  r_thumbnail_url :: "string option"
  r_title :: "string option"

subsection \<open>Helpers from lodash\<close>

text \<open>\<^verbatim>\<open>includes( s, needle )\<close> on a string is a substring test, and false on \<^verbatim>\<open>undefined\<close>.\<close>

fun substring_at :: "string \<Rightarrow> string \<Rightarrow> bool" where
  "substring_at needle [] = (needle = [])"
| "substring_at needle (c # cs) =
     (take (length needle) (c # cs) = needle \<or> substring_at needle cs)"

definition includes_str :: "string option \<Rightarrow> string \<Rightarrow> bool" where
  "includes_str s needle = (case s of None \<Rightarrow> False | Some t \<Rightarrow> substring_at needle t)"

text \<open>
  \<^verbatim>\<open>toLower\<close> and \<^verbatim>\<open>kebabCase\<close> first turn their argument into a string, \<^verbatim>\<open>undefined\<close> into
  the empty string.
\<close>

definition lodash_toString :: "string option \<Rightarrow> string" where
  "lodash_toString v = (case v of None \<Rightarrow> [] | Some s \<Rightarrow> s)"

definition wp_embed_marker :: string where
  "wp_embed_marker = ''class='' @ [CHR 0x22] @ ''wp-embedded-content'' @ [CHR 0x22] @ '' data-secret''"

subsection \<open>Lifecycle and the fetch\<close>

definition componentWillUnmount :: "component \<Rightarrow> component" where
  "componentWillUnmount c = c\<lparr>unmounting := True\<rparr>"

text \<open>\<^verbatim>\<open>getPhotoHtml( photo )\<close>: the element \<^verbatim>\<open><p><img src alt width="100%" /></p>\<close>, rendered.\<close>

definition photoPreview :: "response \<Rightarrow> node" where
  "photoPreview photo =
     Element ''p'' []
       [Element ''img''
          [(''src'', opt_prop (r_thumbnail_url photo)), (''alt'', opt_prop (r_title photo)),
           (''width'', Str ''100%'')] []]"

definition getPhotoHtml :: "'a lib_scheme \<Rightarrow> response \<Rightarrow> string" where
  "getPhotoHtml L photo = renderToString L (photoPreview photo)"

text \<open>
  \<^verbatim>\<open>doServerSideRender( event )\<close> up to the request. \<open>S\<close> holds the title, icon and patterns
  that the component closes over, \<open>reg\<close> is \<^verbatim>\<open>blockPatterns\<close>, \<open>ev\<close> says whether an event was
  passed. The closed-over \<^verbatim>\<open>patterns\<close> is an array, which is truthy, so the guard
  \<^verbatim>\<open>! patterns || ( patterns && ! matchesPatterns( url, patterns ) )\<close> is
  \<^verbatim>\<open>! matchesPatterns( url, patterns )\<close>. A TypeError thrown by \<^verbatim>\<open>matchesPatterns\<close> ends the
  call.
\<close>

definition start_fetch :: "string option \<Rightarrow> component \<Rightarrow> component" where
  "start_fetch u c =
     emit (ApiRequest u) (setState (no_patch\<lparr>set_error := Some False, set_fetching := Some True\<rparr>) c)"

definition doServerSideRender ::
  "'a lib_scheme \<Rightarrow> registry \<Rightarrow> settings \<Rightarrow> bool \<Rightarrow> component \<Rightarrow> js_error + component" where
  "doServerSideRender L reg S ev c =
     (let c1 = (if ev then emit PreventDefault c else c);
          u = url (attributes (props c))
      in case matchesPatterns L u (patterns S) of
           Inl e \<Rightarrow> Inl e
         | Inr True \<Rightarrow> Inr (start_fetch u c1)
         | Inr False \<Rightarrow>
             (case findBlock L reg u of
                Inl e \<Rightarrow> Inl e
              | Inr matchingBlock \<Rightarrow>
                  if ''core-embed/wordpress'' \<noteq> name (props c) \<and> ''core/embed'' \<noteq> matchingBlock
                     \<and> name (props c) \<noteq> matchingBlock
                  then Inr (emit (OnReplace (CreateBlock matchingBlock u)) c1)
                  else Inr (start_fetch u c1)))"

text \<open>
  The first function handed to \<^verbatim>\<open>then\<close>, run when the request is fulfilled with \<open>obj\<close>. \<open>u\<close>
  is the \<^verbatim>\<open>url\<close> that \<^verbatim>\<open>doServerSideRender\<close> read; the name of the block and the
  \<^verbatim>\<open>unmounting\<close> flag are read when the continuation runs.
\<close>

definition store_embed :: "string \<Rightarrow> string \<Rightarrow> string \<Rightarrow> component \<Rightarrow> component" where
  "store_embed h t slug c =
     emit (SetAttributes t slug)
       (setState (no_patch\<lparr>set_html := Some h, set_type := Some t, set_providerNameSlug := Some slug\<rparr>) c)"

text \<open>
  The constants at the head of the continuation: \<^verbatim>\<open>html\<close> is \<^verbatim>\<open>obj.html\<close> when that is truthy
  and \<^verbatim>\<open>obj.result\<close> otherwise; \<^verbatim>\<open>type\<close> defaults to \<^verbatim>\<open>'rich'\<close> when the field is
  \<^verbatim>\<open>undefined\<close>; the slug comes from \<^verbatim>\<open>provider_name\<close> unless that is the empty string, in
  which case it comes from the title.
\<close>

definition response_html :: "response \<Rightarrow> string option" where
  "response_html obj = (if truthy (r_html obj) then r_html obj else r_result obj)"

definition response_type :: "response \<Rightarrow> string" where
  "response_type obj = (case r_type obj of None \<Rightarrow> ''rich'' | Some t \<Rightarrow> t)"

definition response_slug :: "'a lib_scheme \<Rightarrow> settings \<Rightarrow> response \<Rightarrow> string" where
  "response_slug L S obj =
     kebabCase L (toLower L (lodash_toString
       (if Some [] \<noteq> r_provider_name obj then r_provider_name obj else Some (title S))))"

definition on_fulfilled ::
  "'a lib_scheme \<Rightarrow> settings \<Rightarrow> string option \<Rightarrow> response \<Rightarrow> component \<Rightarrow> component" where
  "on_fulfilled L S u obj c =
     (if unmounting c then c
      else
        let payload = response_html obj;
            slug = response_slug L S obj;
            marked = includes_str payload wp_embed_marker;
            type1 = (if marked then ''wp-embed'' else response_type obj)
        in if marked \<and> name (props c) \<noteq> ''core-embed/wordpress''
           then emit (OnReplace (CreateBlock ''core-embed/wordpress'' u)) c
           else
             setState (no_patch\<lparr>set_fetching := Some False\<rparr>)
               (if truthy payload then store_embed (the payload) type1 slug c
                else if ''photo'' = type1 then store_embed (getPhotoHtml L obj) type1 slug c
                else c))"

text \<open>The second function handed to \<^verbatim>\<open>then\<close>, run when the request is rejected.\<close>

definition on_rejected :: "component \<Rightarrow> component" where
  "on_rejected c = setState (no_patch\<lparr>set_fetching := Some False, set_error := Some True\<rparr>) c"

text \<open>\<^verbatim>\<open>componentWillMount\<close>: a block that already has a URL starts the fetch.\<close>

definition componentWillMount ::
  "'a lib_scheme \<Rightarrow> registry \<Rightarrow> settings \<Rightarrow> component \<Rightarrow> js_error + component" where
  "componentWillMount L reg S c =
     (if truthy (url (attributes (props c)))
      then doServerSideRender L reg S False (setState (no_patch\<lparr>set_fetching := Some True\<rparr>) c)
      else Inr c)"

subsection \<open>Rendering\<close>

text \<open>
  \<^verbatim>\<open>classnames\<close> joins with a space the names whose condition holds. A string argument is
  a name whose condition is that it is not empty; a key of an object argument is a name
  whose condition is its value. The keys built in this module start with different fixed
  texts, so no key occurs twice in an object.
\<close>

fun join_with :: "string \<Rightarrow> string list \<Rightarrow> string" where
  "join_with sep [] = []"
| "join_with sep [w] = w"
| "join_with sep (w # v # ws) = w @ sep @ join_with sep (v # ws)"

definition classnames :: "(string \<times> bool) list \<Rightarrow> string" where
  "classnames entries = join_with '' '' (map fst (filter snd entries))"

text \<open>A template literal writes \<^verbatim>\<open>undefined\<close> out as a word.\<close>

definition template :: "string option \<Rightarrow> string" where
  "template v = (case v of None \<Rightarrow> ''undefined'' | Some s \<Rightarrow> s)"

definition HOSTS_NO_PREVIEWS :: "string list" where
  "HOSTS_NO_PREVIEWS = [''facebook.com'']"

text \<open>\<^verbatim>\<open>host.replace( /^www\./, '' )\<close>\<close>

definition strip_www :: "string \<Rightarrow> string" where
  "strip_www h = (if take 4 h = ''www.'' then drop 4 h else h)"

definition ellipsis :: string where
  "ellipsis = [CHR 0xE2, CHR 0x80, CHR 0xA6]"

definition controls :: "component \<Rightarrow> node" where
  "controls c =
     (if isSelected (props c)
      then Element ''BlockControls'' [(''key'', Str ''controls'')]
             [Element ''BlockAlignmentToolbar''
                [(''value'', opt_prop (align (attributes (props c)))),
                 (''onChange'', Callback UpdateAlignment)] []]
      else Nothing)"

definition loading_indicator :: "'a lib_scheme \<Rightarrow> node" where
  "loading_indicator L =
     Element ''div'' [(''key'', Str ''loading''), (''className'', Str ''wp-block-embed is-loading'')]
       [Element ''Spinner'' [] [],
        Element ''p'' [] [Text (translate L (''Embedding'' @ ellipsis))]]"

definition error_message :: "'a lib_scheme \<Rightarrow> node" where
  "error_message L =
     Element ''p'' [(''className'', Str ''components-placeholder__error'')]
       [Text (translate L ''Sorry, we could not embed that content.'')]"

definition url_form :: "'a lib_scheme \<Rightarrow> settings \<Rightarrow> component \<Rightarrow> node" where
  "url_form L S c =
     (let label = sprintf L (translate L ''%s URL'') (title S)
      in Element ''Placeholder''
           [(''key'', Str ''placeholder''), (''icon'', Str (icon S)), (''label'', Str label),
            (''className'', Str ''wp-block-embed'')]
           [Element ''form'' [(''onSubmit'', Callback DoServerSideRender)]
              [Element ''input''
                 [(''type'', Str ''url''),
                  (''value'', Str (if truthy (url (attributes (props c)))
                                   then the (url (attributes (props c))) else [])),
                  (''className'', Str ''components-placeholder__input''),
                  (''aria-label'', Str label),
                  (''placeholder'', Str (translate L (''Enter URL to embed here'' @ ellipsis))),
                  (''onChange'', Callback UrlChanged)] [],
               Element ''Button'' [(''isLarge'', Flag True), (''type'', Str ''submit'')]
                 [Text (translate L ''Embed'')],
               (if error (state c) then error_message L else Nothing)]])"

definition embedWrapper :: "'a lib_scheme \<Rightarrow> string \<Rightarrow> component \<Rightarrow> node" where
  "embedWrapper L host c =
     (if ''wp-embed'' = type (state c)
      then Element ''div''
             [(''className'', Str ''wp-block-embed__wrapper''),
              (''dangerouslySetInnerHTML'', InnerHTML (html (state c)))] []
      else Element ''div'' [(''className'', Str ''wp-block-embed__wrapper'')]
             [Element ''SandBox''
                [(''html'', Str (html (state c))),
                 (''title'', Str (sprintf L (translate L ''Embedded content from %s'') host)),
                 (''type'', Str (type (state c)))] []])"

definition no_preview :: "'a lib_scheme \<Rightarrow> settings \<Rightarrow> string \<Rightarrow> node" where
  "no_preview L S u =
     Element ''Placeholder'' [(''icon'', Str (icon S)), (''label'', Str (translate L ''Embed URL''))]
       [Element ''p'' [(''className'', Str ''components-placeholder__error'')]
          [Element ''a'' [(''href'', Str u)] [Text u]],
        Element ''p'' [(''className'', Str ''components-placeholder__error'')]
          [Text (translate L ''Previews for this are unavailable in the editor, sorry!'')]]"

definition caption_editor :: "'a lib_scheme \<Rightarrow> component \<Rightarrow> node" where
  "caption_editor L c =
     (if caption (attributes (props c)) \<noteq> [] \<or> isSelected (props c)
      then Element ''RichText''
             [(''tagName'', Str ''figcaption''),
              (''placeholder'', Str (translate L (''Write caption'' @ ellipsis))),
              (''value'', Nodes (caption (attributes (props c)))),
              (''onChange'', Callback CaptionChanged),
              (''isSelected'', Flag (isSelected (props c))),
              (''inlineToolbar'', Flag True)] []
      else Nothing)"

text \<open>
  \<^verbatim>\<open>render()\<close>. In the third case \<^verbatim>\<open>parse( url )\<close> throws a TypeError when \<^verbatim>\<open>url\<close> is not a
  string, and \<^verbatim>\<open>parsedUrl.host.replace\<close> throws one when the URL has no host.
\<close>

definition render :: "'a lib_scheme \<Rightarrow> settings \<Rightarrow> component \<Rightarrow> js_error + node list" where
  "render L S c =
     (if fetching (state c) then Inr [controls c, loading_indicator L]
      else if html (state c) = [] then Inr [controls c, url_form L S c]
      else
        (case url (attributes (props c)) of
           None \<Rightarrow> Inl TypeError
         | Some u \<Rightarrow>
             (case parse_host L u of
                None \<Rightarrow> Inl TypeError
              | Some host \<Rightarrow>
                  let cannotPreview = (strip_www host \<in> set HOSTS_NO_PREVIEWS)
                  in Inr [controls c,
                          Element ''figure''
                            [(''key'', Str ''embed''),
                             (''className'', Str (classnames
                                [(lodash_toString (className (props c)), truthy (className (props c))),
                                 (''is-video'', ''video'' = type (state c))]))]
                            [(if cannotPreview then no_preview L S u else embedWrapper L host c),
                             caption_editor L c]])))"

subsection \<open>Saving\<close>

text \<open>\<^verbatim>\<open>save( { attributes } )\<close>; \<open>None\<close> is the \<^verbatim>\<open>null\<close> it returns for a block without URL.\<close>

definition save :: "attributes \<Rightarrow> node option" where
  "save a =
     (if \<not> truthy (url a) then None
      else
        let embedClassName = classnames
              [(''wp-block-embed'', True),
               (''align'' @ template (align a), truthy (align a)),
               (''is-type-'' @ template (attr_type a), truthy (attr_type a)),
               (''is-provider-'' @ template (attr_providerNameSlug a), truthy (attr_providerNameSlug a))]
        in Some (Element ''figure'' [(''className'', Str embedClassName)]
                   [Text ([CHR 0x0A] @ the (url a) @ [CHR 0x0A]),
                    (if caption a \<noteq> [] then Element ''figcaption'' [] (caption a) else Nothing)]))"

subsection \<open>Reading a rendered tree\<close>

text \<open>The nodes of a tree, the tags among them, the markup rendered raw and the markup handed
  to a sandbox.\<close>

fun subnodes :: "node \<Rightarrow> node list" where
  "subnodes (Element t ps kids) = Element t ps kids # concat (map subnodes kids)"
| "subnodes n = [n]"

fun tag_of :: "node \<Rightarrow> string option" where
  "tag_of (Element t ps kids) = Some t"
| "tag_of n = None"

fun raw_of :: "node \<Rightarrow> string list" where
  "raw_of (Element t ps kids) =
     concat (map (\<lambda>kv. case snd kv of InnerHTML h \<Rightarrow> [h] | _ \<Rightarrow> []) ps)"
| "raw_of n = []"

fun sandbox_of :: "node \<Rightarrow> string list" where
  "sandbox_of (Element t ps kids) =
     (if t = ''SandBox''
      then concat (map (\<lambda>kv. case kv of (k, Str h) \<Rightarrow> (if k = ''html'' then [h] else []) | _ \<Rightarrow> []) ps)
      else [])"
| "sandbox_of n = []"

definition nodes_of :: "node list \<Rightarrow> node list" where
  "nodes_of tree = concat (map subnodes tree)"

definition tags :: "node list \<Rightarrow> string list" where
  "tags tree = concat (map (\<lambda>n. case tag_of n of None \<Rightarrow> [] | Some t \<Rightarrow> [t]) (nodes_of tree))"

definition raw_markup :: "node list \<Rightarrow> string list" where
  "raw_markup tree = concat (map raw_of (nodes_of tree))"

definition sandboxed :: "node list \<Rightarrow> string list" where
  "sandboxed tree = concat (map sandbox_of (nodes_of tree))"

text \<open>The maximal runs of characters that are not separators, \<open>w\<close> being the run read so far.\<close>

fun runs :: "(char \<Rightarrow> bool) \<Rightarrow> string \<Rightarrow> string \<Rightarrow> string list" where
  "runs sep w [] = (if w = [] then [] else [w])"
| "runs sep w (c # cs) =
     (if sep c then (if w = [] then [] else [w]) @ runs sep [] cs
      else runs sep (w @ [c]) cs)"

text \<open>The class list of a \<^verbatim>\<open>class\<close> attribute: its words between spaces.\<close>

definition class_list :: "string \<Rightarrow> string list" where
  "class_list s = runs (\<lambda>c. c = CHR '' '') [] s"

section \<open>Models of the other collaborators, for concrete runs\<close>

text \<open>
  Each model agrees with the library on the inputs named:
  \<^item> \<open>ascii_toLower\<close> with \<^verbatim>\<open>toLower\<close> on ASCII text;
  \<^item> \<open>ascii_kebabCase\<close> with \<^verbatim>\<open>kebabCase\<close> on words of ASCII letters between spaces;
  \<^item> \<open>url_host\<close> with \<^verbatim>\<open>parse( s ).host\<close> on \<^verbatim>\<open>scheme://host/path\<close> without user name, and on
    text without \<^verbatim>\<open>://\<close>, which has no host;
  \<^item> \<open>markup\<close> with \<^verbatim>\<open>renderToString\<close> on HTML elements whose properties are strings or
    \<^verbatim>\<open>undefined\<close>;
  \<^item> \<open>sprintf1\<close> with \<^verbatim>\<open>sprintf\<close> on a format with one \<^verbatim>\<open>%s\<close>;
  \<^item> no translation is loaded, so \<^verbatim>\<open>__\<close> returns its argument.
\<close>

definition ascii_toLower :: "string \<Rightarrow> string" where
  "ascii_toLower s = map lower s"

definition is_alnum :: "char \<Rightarrow> bool" where
  "is_alnum c =
     (let n = of_char c :: nat
      in (48 \<le> n \<and> n \<le> 57) \<or> (65 \<le> n \<and> n \<le> 90) \<or> (97 \<le> n \<and> n \<le> 122))"

definition ascii_kebabCase :: "string \<Rightarrow> string" where
  "ascii_kebabCase s = join_with ''-'' (runs (\<lambda>c. \<not> is_alnum c) [] (map lower s))"

fun after_first :: "string \<Rightarrow> string \<Rightarrow> string option" where
  "after_first needle [] = (if needle = [] then Some [] else None)"
| "after_first needle (c # cs) =
     (if take (length needle) (c # cs) = needle then Some (drop (length needle) (c # cs))
      else after_first needle cs)"

definition url_host :: "string \<Rightarrow> string option" where
  "url_host s =
     (case after_first ''://'' s of
        None \<Rightarrow> None
      | Some rest \<Rightarrow> Some (map lower (takeWhile (\<lambda>c. c \<notin> set ''/?#'') rest)))"

definition escape_char :: "char \<Rightarrow> string" where
  "escape_char c =
     (if c = CHR ''&'' then ''&amp;''
      else if c = CHR ''<'' then ''&lt;''
      else if c = CHR ''>'' then ''&gt;''
      else if c = CHR 0x22 then ''&quot;''
      else if c = CHR 0x27 then ''&#x27;''
      else [c])"

definition attribute_markup :: "string \<times> node propval \<Rightarrow> string" where
  "attribute_markup kv =
     (case snd kv of
        Str v \<Rightarrow> '' '' @ fst kv @ ''='' @ [CHR 0x22] @ concat (map escape_char v) @ [CHR 0x22]
      | _ \<Rightarrow> [])"

fun markup :: "node \<Rightarrow> string" where
  "markup (Text s) = concat (map escape_char s)"
| "markup Nothing = []"
| "markup (Element t ps kids) =
     ''<'' @ t @ concat (map attribute_markup ps) @
     (if t \<in> set [''img'', ''br'', ''hr'', ''input''] then ''/>''
      else ''>'' @ concat (map markup kids) @ ''</'' @ t @ ''>'')"

fun sprintf1 :: "string \<Rightarrow> string \<Rightarrow> string" where
  "sprintf1 [] a = []"
| "sprintf1 (c # cs) a =
     (if take 2 (c # cs) = ''%s'' then a @ drop 1 cs else c # sprintf1 cs a)"

definition js :: lib where
  "js =
     \<lparr>RegExp_test = regexp_test, kebabCase = ascii_kebabCase, toLower = ascii_toLower,
      parse_host = url_host, renderToString = markup, translate = (\<lambda>s. s), sprintf = sprintf1\<rparr>"

section \<open>The resolver as specified\<close>

text \<open>
  The resolver as the specification words it: the first identifier, in insertion order, one
  of whose patterns matches the URL as a case-insensitive regular expression, and the
  generic identifier when there is none.
\<close>

definition pattern_matches :: "'a lib_scheme \<Rightarrow> string \<Rightarrow> string list \<Rightarrow> bool" where
  "pattern_matches L u ps = list_ex (\<lambda>p. RegExp_test L p ''i'' u) ps"

definition resolver_spec :: "'a lib_scheme \<Rightarrow> registry \<Rightarrow> string \<Rightarrow> string" where
  "resolver_spec L reg u =
     (case find (\<lambda>entry. pattern_matches L u (snd entry)) reg of
        None \<Rightarrow> ''core/embed''
      | Some entry \<Rightarrow> fst entry)"

section \<open>Instances\<close>

text \<open>
  The constructor gives a component its initial state. \<open>block_props\<close> are the properties of a
  block that has only its name and URL: the caption is its default, nothing else is set and
  the block is not selected.
\<close>

definition constructor :: "props \<Rightarrow> component" where
  "constructor p = \<lparr>props = p, state = initial_state, unmounting = False, log = []\<rparr>"

definition block_props :: "string \<Rightarrow> string option \<Rightarrow> props" where
  "block_props n u =
     \<lparr>name = n,
      attributes = \<lparr>url = u, caption = [], align = None, attr_type = None, attr_providerNameSlug = None\<rparr>,
      isSelected = False, className = None\<rparr>"

text \<open>
  The exported \<^verbatim>\<open>settings\<close> of the generic block \<^verbatim>\<open>core/embed\<close>, which passes no patterns,
  and the settings of a definition of the module.
\<close>

definition core_embed_settings :: "'a lib_scheme \<Rightarrow> settings" where
  "core_embed_settings L = getEmbedBlockSettings (translate L ''Embed'') ''embed-generic'' None"

definition settings_of :: "options \<Rightarrow> settings" where
  "settings_of d = snd (fst (getEmbedBlockDefinition d []))"

definition no_response :: response where
  "no_response =
     \<lparr>r_html = None, r_result = None, r_type = None, r_provider_name = None,
      r_thumbnail_url = None, r_title = None\<rparr>"

section \<open>Entering the fetching state, as amended\<close>

text \<open>
  When \<^verbatim>\<open>doServerSideRender\<close> hands the block over to another one: the URL matches none of
  the block's own patterns, the block is not \<^verbatim>\<open>core-embed/wordpress\<close>, and the resolver
  finds a block that is neither the generic \<^verbatim>\<open>core/embed\<close> nor the block itself.
\<close>

definition replace_condition ::
  "'a lib_scheme \<Rightarrow> registry \<Rightarrow> settings \<Rightarrow> component \<Rightarrow> string \<Rightarrow> bool" where
  "replace_condition L reg S c u =
     (\<not> pattern_matches L u (patterns S) \<and> name (props c) \<noteq> ''core-embed/wordpress''
      \<and> resolver_spec L reg u \<noteq> ''core/embed'' \<and> resolver_spec L reg u \<noteq> name (props c))"

section \<open>The class list of a saved block, as specified\<close>

text \<open>
  The class \<^verbatim>\<open>prefix<value>\<close> is present exactly when the value is set, that is, defined and
  not empty. An attribute value free of spaces makes one class.
\<close>

definition optional_class :: "string \<Rightarrow> string option \<Rightarrow> string list" where
  "optional_class prefix v =
     (case v of None \<Rightarrow> [] | Some s \<Rightarrow> if s = [] then [] else [prefix @ s])"

definition space_free :: "string option \<Rightarrow> bool" where
  "space_free v = (case v of None \<Rightarrow> True | Some s \<Rightarrow> list_all (\<lambda>c. c \<noteq> CHR '' '') s)"

definition saved_classes :: "attributes \<Rightarrow> string list" where
  "saved_classes a =
     ''wp-block-embed'' # optional_class ''align'' (align a) @ optional_class ''is-type-'' (attr_type a)
       @ optional_class ''is-provider-'' (attr_providerNameSlug a)"

section \<open>What reaches the block attributes\<close>

text \<open>
  The values that a call \<^verbatim>\<open>setAttributes( { type, providerNameSlug } )\<close> writes to the block
  attributes, and those written by all the calls of a log.
\<close>

fun attribute_writes :: "effect \<Rightarrow> string list" where
  "attribute_writes (SetAttributes t slug) = [t, slug]"
| "attribute_writes e = []"

definition written_to_attributes :: "effect list \<Rightarrow> string list" where
  "written_to_attributes effects = concat (map attribute_writes effects)"

section \<open>Verified properties\<close>

subsection \<open>The resolver\<close>

lemma matchesPatterns_Some: "matchesPatterns L (Some u) ps = Inr (pattern_matches L u ps)"
  by (induction ps) (simp_all add: pattern_matches_def)

lemma findBlock_Some: "findBlock L reg (Some u) = Inr (resolver_spec L reg u)"
proof (induction reg)
  case Nil
  show ?case by (simp add: resolver_spec_def)
next
  case (Cons entry rest)
  obtain n ps where e: "entry = (n, ps)" by (cases entry)
  show ?case
  proof (cases "pattern_matches L u ps")
    case True
    then show ?thesis by (simp add: e matchesPatterns_Some resolver_spec_def)
  next
    case False
    with Cons show ?thesis by (simp add: e matchesPatterns_Some resolver_spec_def)
  qed
qed

lemma resolver_spec_first:
  assumes "pattern_matches L u ps" and "list_all (\<lambda>entry. \<not> pattern_matches L u (snd entry)) before"
  shows "resolver_spec L (before @ (n, ps) # rest) u = n"
  using assms by (induction before) (simp_all add: resolver_spec_def)

lemma resolver_spec_none:
  assumes "list_all (\<lambda>entry. \<not> pattern_matches L u (snd entry)) reg"
  shows "resolver_spec L reg u = ''core/embed''"
  using assms by (induction reg) (simp_all add: resolver_spec_def)

text \<open>
  C1. For every URL string, \<^verbatim>\<open>findBlock\<close> returns what the specification's resolver returns:
  it scans the registry in insertion order, tests each pattern as a regular expression with
  the flag \<^verbatim>\<open>i\<close>, and returns the first identifier with a matching pattern. So an identifier
  with a matching pattern, registered after identifiers none of whose patterns match, is
  returned whatever is registered after it; and when no pattern of the registry matches,
  the result is \<^verbatim>\<open>core/embed\<close>.
\<close>

theorem findBlock_first_match_or_default:
  "findBlock L reg (Some u) = Inr (resolver_spec L reg u)
   \<and> (pattern_matches L u ps \<and> list_all (\<lambda>entry. \<not> pattern_matches L u (snd entry)) before
        \<longrightarrow> findBlock L (before @ (n, ps) # rest) (Some u) = Inr n)
   \<and> (list_all (\<lambda>entry. \<not> pattern_matches L u (snd entry)) reg
        \<longrightarrow> findBlock L reg (Some u) = Inr ''core/embed'')"
  by (simp add: findBlock_Some resolver_spec_first resolver_spec_none)

theorem findBlock_first_match_or_default_witness:
  "pattern_matches js ''https://WWW.MixCloud.com/a/'' [''^https?://(www.)?mixcloud.com/.+'']
   \<and> list_all (\<lambda>entry. \<not> pattern_matches js ''https://WWW.MixCloud.com/a/'' (snd entry)) (take 18 blockPatterns)
   \<and> blockPatterns ! 20 = (''core-embed/polldaddy'', [''^https?://(www.)?mixcloud.com/.+''])
   \<and> findBlock js blockPatterns (Some ''https://WWW.MixCloud.com/a/'') = Inr ''core-embed/mixcloud''
   \<and> list_all (\<lambda>entry. \<not> pattern_matches js ''https://example.com/a'' (snd entry)) blockPatterns
   \<and> findBlock js blockPatterns (Some ''https://example.com/a'') = Inr ''core/embed''"
proof -
  have e: "list_all (\<lambda>entry. \<not> pattern_matches js ''https://example.com/a'' (snd entry)) blockPatterns"
    by code_simp
  from findBlock_first_match_or_default [of js blockPatterns "''https://example.com/a''"] e
  have f: "findBlock js blockPatterns (Some ''https://example.com/a'') = Inr ''core/embed''"
    by blast
  have a: "pattern_matches js ''https://WWW.MixCloud.com/a/'' [''^https?://(www.)?mixcloud.com/.+'']"
    by code_simp
  have b: "list_all (\<lambda>entry. \<not> pattern_matches js ''https://WWW.MixCloud.com/a/'' (snd entry)) (take 18 blockPatterns)"
    by code_simp
  have c: "blockPatterns = take 18 blockPatterns @ (''core-embed/mixcloud'', [''^https?://(www.)?mixcloud.com/.+'']) # drop 19 blockPatterns"
    by code_simp
  have d: "blockPatterns ! 20 = (''core-embed/polldaddy'', [''^https?://(www.)?mixcloud.com/.+''])"
    by code_simp
  from findBlock_first_match_or_default [of js blockPatterns "''https://WWW.MixCloud.com/a/''"
      "[''^https?://(www.)?mixcloud.com/.+'']" "take 18 blockPatterns" "''core-embed/mixcloud''" "drop 19 blockPatterns"]
  have "findBlock js (take 18 blockPatterns @ (''core-embed/mixcloud'', [''^https?://(www.)?mixcloud.com/.+'']) # drop 19 blockPatterns) (Some ''https://WWW.MixCloud.com/a/'') = Inr ''core-embed/mixcloud''"
    using a b by blast
  with c have "findBlock js blockPatterns (Some ''https://WWW.MixCloud.com/a/'') = Inr ''core-embed/mixcloud''"
    by simp
  with a b d e f show ?thesis by blast
qed

subsection \<open>Registration\<close>

lemma map_fst_assign:
  "map fst (assign k v reg) = (if k \<in> set (map fst reg) then map fst reg else map fst reg @ [k])"
  by (induction k v reg rule: assign.induct) auto

lemma keys_assign: "set (map fst (assign k v reg)) = insert k (set (map fst reg))"
  unfolding map_fst_assign by auto

lemma nonempty_assign:
  "v \<noteq> [] \<Longrightarrow> list_all (\<lambda>entry. snd entry \<noteq> []) reg \<Longrightarrow> list_all (\<lambda>entry. snd entry \<noteq> []) (assign k v reg)"
  by (induction reg) auto

lemma register_zero_patterns:
  "opt_patterns d = None \<or> opt_patterns d = Some [] \<Longrightarrow> snd (getEmbedBlockDefinition d reg) = reg"
  by (auto simp: getEmbedBlockDefinition_def)

lemma keys_register:
  "set (map fst (snd (getEmbedBlockDefinition d reg))) \<subseteq> insert (opt_name d) (set (map fst reg))"
  using keys_assign [of "opt_name d" _ reg]
  by (auto simp: getEmbedBlockDefinition_def split: option.splits)

lemma nonempty_register:
  "list_all (\<lambda>entry. snd entry \<noteq> []) reg \<Longrightarrow>
   list_all (\<lambda>entry. snd entry \<noteq> []) (snd (getEmbedBlockDefinition d reg))"
  by (auto simp: getEmbedBlockDefinition_def nonempty_assign split: option.splits)

lemma nonempty_load:
  "list_all (\<lambda>entry. snd entry \<noteq> []) reg \<Longrightarrow> list_all (\<lambda>entry. snd entry \<noteq> []) (load defs reg)"
  by (induction defs arbitrary: reg) (simp_all add: nonempty_register)

lemma absent_load:
  assumes "list_all (\<lambda>d. opt_name d = n \<longrightarrow> opt_patterns d = None \<or> opt_patterns d = Some []) defs"
    and "n \<notin> set (map fst reg)"
  shows "n \<notin> set (map fst (load defs reg))"
  using assms
proof (induction defs arbitrary: reg)
  case Nil
  then show ?case by simp
next
  case (Cons d defs)
  have "n \<notin> set (map fst (snd (getEmbedBlockDefinition d reg)))"
  proof (cases "opt_name d = n")
    case True
    with Cons.prems(1) have "opt_patterns d = None \<or> opt_patterns d = Some []" by simp
    then show ?thesis using Cons.prems(2) by (simp add: register_zero_patterns)
  next
    case False
    then show ?thesis using Cons.prems(2) keys_register [of d reg] by auto
  qed
  with Cons show ?case by simp
qed

lemma findBlock_range:
  "findBlock L reg v = Inr n \<Longrightarrow> n = ''core/embed'' \<or> n \<in> set (map fst reg)"
  by (induction reg) (auto split: sum.splits bool.splits)

text \<open>
  C2. Let every definition named \<open>n\<close> in a list of definitions have no patterns (absent or
  empty). Then evaluating any of them leaves the registry as it was; \<open>n\<close> is no key of the
  registry that the list builds from the empty one; \<^verbatim>\<open>findBlock\<close> returns \<open>n\<close> for no URL unless
  \<open>n\<close> is the default \<^verbatim>\<open>core/embed\<close>; every entry of that registry has at least one pattern;
  and \<^verbatim>\<open>matchesPatterns\<close> on an empty pattern list is false.
\<close>

theorem zero_patterns_never_registered:
  assumes "list_all (\<lambda>d. opt_name d = n \<longrightarrow> opt_patterns d = None \<or> opt_patterns d = Some []) defs"
  shows "list_all (\<lambda>d. opt_name d = n \<longrightarrow> snd (getEmbedBlockDefinition d reg) = reg) defs
         \<and> n \<notin> set (map fst (load defs []))
         \<and> (findBlock L (load defs []) v = Inr n \<longrightarrow> n = ''core/embed'')
         \<and> list_all (\<lambda>entry. snd entry \<noteq> []) (load defs [])
         \<and> matchesPatterns L v [] = Inr False"
proof -
  have a: "list_all (\<lambda>d. opt_name d = n \<longrightarrow> snd (getEmbedBlockDefinition d reg) = reg) defs"
    using assms by (auto simp: list_all_iff register_zero_patterns)
  have b: "n \<notin> set (map fst (load defs []))"
    using assms by (rule absent_load) simp
  have c: "findBlock L (load defs []) v = Inr n \<longrightarrow> n = ''core/embed''"
    using b findBlock_range [of L "load defs []" v n] by blast
  have d: "list_all (\<lambda>entry. snd entry \<noteq> []) (load defs [])"
    by (rule nonempty_load) simp
  from a b c d show ?thesis by simp
qed

theorem zero_patterns_never_registered_witness:
  "list_all (\<lambda>d. opt_name d = ''core-embed/wordpress'' \<longrightarrow> opt_patterns d = None \<or> opt_patterns d = Some [])
     (common @ others)
   \<and> ''core-embed/wordpress'' \<notin> set (map fst blockPatterns)
   \<and> list_all (\<lambda>entry. snd entry \<noteq> []) blockPatterns
   \<and> findBlock js blockPatterns (Some ''https://wordpress.org/news/'') = Inr ''core/embed''"
proof -
  have h: "list_all (\<lambda>d. opt_name d = ''core-embed/wordpress'' \<longrightarrow> opt_patterns d = None \<or> opt_patterns d = Some [])
     (common @ others)"
    by code_simp
  have f: "findBlock js blockPatterns (Some ''https://wordpress.org/news/'') = Inr ''core/embed''"
    by code_simp
  from zero_patterns_never_registered [OF h, of "[]" js "Some ''https://wordpress.org/news/''"] h f
  show ?thesis by (simp add: blockPatterns_def)
qed

subsection \<open>Effects and state\<close>

lemma emit_simps:
  "log (emit e c) = log c @ [e]" "state (emit e c) = state c"
  "props (emit e c) = props c" "unmounting (emit e c) = unmounting c"
  by (simp_all add: emit_def)

lemma setState_simps:
  "log (setState p c) = log c @ [SetState p]" "state (setState p c) = merge p (state c)"
  "props (setState p c) = props c" "unmounting (setState p c) = unmounting c"
  by (simp_all add: setState_def emit_def)

lemma start_fetch_simps:
  "log (start_fetch u c) =
     log c @ [SetState (no_patch\<lparr>set_error := Some False, set_fetching := Some True\<rparr>), ApiRequest u]"
  "state (start_fetch u c) = (state c)\<lparr>error := False, fetching := True\<rparr>"
  "props (start_fetch u c) = props c" "unmounting (start_fetch u c) = unmounting c"
  by (simp_all add: start_fetch_def emit_simps setState_simps merge_def no_patch_def)

lemma store_embed_simps:
  "log (store_embed h t slug c) =
     log c @ [SetState (no_patch\<lparr>set_html := Some h, set_type := Some t, set_providerNameSlug := Some slug\<rparr>),
              SetAttributes t slug]"
  "state (store_embed h t slug c) = (state c)\<lparr>html := h, type := t, providerNameSlug := Some slug\<rparr>"
  "props (store_embed h t slug c) = props c" "unmounting (store_embed h t slug c) = unmounting c"
  by (simp_all add: store_embed_def emit_simps setState_simps merge_def no_patch_def)

subsection \<open>Entering the fetching state\<close>

text \<open>
  C3, amended. For a block whose URL is a string, \<^verbatim>\<open>doServerSideRender\<close> returns, leaves the
  properties and the \<^verbatim>\<open>unmounting\<close> flag alone, and does one of two things after the optional
  \<^verbatim>\<open>preventDefault\<close>. If the URL matches none of the block's own patterns, the block is not
  \<^verbatim>\<open>core-embed/wordpress\<close>, and the resolved identifier is neither \<^verbatim>\<open>core/embed\<close> nor the
  block's own name, it calls \<^verbatim>\<open>onReplace\<close> with a block of the resolved name carrying the
  same URL, and neither requests anything nor touches the state. In every other case it sets
  \<^verbatim>\<open>error\<close> to false and \<^verbatim>\<open>fetching\<close> to true and issues the request, without \<^verbatim>\<open>onReplace\<close>.
\<close>

theorem doServerSideRender_replaces_iff:
  assumes "url (attributes (props c)) = Some u"
  shows "\<exists>c'. doServerSideRender L reg S ev c = Inr c'
           \<and> props c' = props c \<and> unmounting c' = unmounting c
           \<and> (if replace_condition L reg S c u
               then log c' = log c @ (if ev then [PreventDefault] else [])
                               @ [OnReplace (CreateBlock (resolver_spec L reg u) (Some u))]
                    \<and> state c' = state c
               else log c' = log c @ (if ev then [PreventDefault] else [])
                               @ [SetState (no_patch\<lparr>set_error := Some False, set_fetching := Some True\<rparr>),
                                  ApiRequest (Some u)]
                    \<and> state c' = (state c)\<lparr>error := False, fetching := True\<rparr>)"
proof (cases "replace_condition L reg S c u")
  case True
  then have "doServerSideRender L reg S ev c =
      Inr (emit (OnReplace (CreateBlock (resolver_spec L reg u) (Some u)))
             (if ev then emit PreventDefault c else c))"
    using assms
    by (auto simp: doServerSideRender_def replace_condition_def matchesPatterns_Some findBlock_Some
          Let_def)
  with True show ?thesis by (simp add: emit_simps)
next
  case False
  then have "doServerSideRender L reg S ev c =
      Inr (start_fetch (Some u) (if ev then emit PreventDefault c else c))"
    using assms
    by (auto simp: doServerSideRender_def replace_condition_def matchesPatterns_Some findBlock_Some
          Let_def split: bool.splits)
  with False show ?thesis by (simp add: emit_simps start_fetch_simps)
qed

theorem doServerSideRender_replaces_iff_witness:
  "url (attributes (props (constructor (block_props ''core/embed'' (Some ''https://twitter.com/a'')))))
     = Some ''https://twitter.com/a''
   \<and> (\<exists>c'. doServerSideRender js blockPatterns (core_embed_settings js) True
               (constructor (block_props ''core/embed'' (Some ''https://twitter.com/a''))) = Inr c'
            \<and> log c' = [PreventDefault, OnReplace (CreateBlock ''core-embed/twitter'' (Some ''https://twitter.com/a''))]
            \<and> state c' = initial_state)
   \<and> (\<exists>c'. doServerSideRender js blockPatterns (settings_of (hd common)) True
               (constructor (block_props ''core-embed/twitter'' (Some ''https://twitter.com/a''))) = Inr c'
            \<and> log c' = [PreventDefault,
                         SetState (no_patch\<lparr>set_error := Some False, set_fetching := Some True\<rparr>),
                         ApiRequest (Some ''https://twitter.com/a'')]
            \<and> state c' = initial_state\<lparr>error := False, fetching := True\<rparr>)"
proof -
  let ?u = "''https://twitter.com/a''"
  let ?g = "constructor (block_props ''core/embed'' (Some ?u))"
  let ?t = "constructor (block_props ''core-embed/twitter'' (Some ?u))"
  have ug: "url (attributes (props ?g)) = Some ?u" by (simp add: constructor_def block_props_def)
  have ut: "url (attributes (props ?t)) = Some ?u" by (simp add: constructor_def block_props_def)
  have r: "resolver_spec js blockPatterns ?u = ''core-embed/twitter''" by code_simp
  have cg: "replace_condition js blockPatterns (core_embed_settings js) ?g ?u" by code_simp
  have ct: "\<not> replace_condition js blockPatterns (settings_of (hd common)) ?t ?u" by code_simp
  have lg: "log ?g = []" "state ?g = initial_state" by (simp_all add: constructor_def)
  have lt: "log ?t = []" "state ?t = initial_state" by (simp_all add: constructor_def)
  from doServerSideRender_replaces_iff [OF ug, of js blockPatterns "core_embed_settings js" True] cg r lg
  have a: "\<exists>c'. doServerSideRender js blockPatterns (core_embed_settings js) True ?g = Inr c'
            \<and> log c' = [PreventDefault, OnReplace (CreateBlock ''core-embed/twitter'' (Some ?u))]
            \<and> state c' = initial_state"
    by auto
  from doServerSideRender_replaces_iff [OF ut, of js blockPatterns "settings_of (hd common)" True] ct lt
  have b: "\<exists>c'. doServerSideRender js blockPatterns (settings_of (hd common)) True ?t = Inr c'
            \<and> log c' = [PreventDefault,
                         SetState (no_patch\<lparr>set_error := Some False, set_fetching := Some True\<rparr>),
                         ApiRequest (Some ?u)]
            \<and> state c' = initial_state\<lparr>error := False, fetching := True\<rparr>"
    by auto
  from ug a b show ?thesis by blast
qed

text \<open>
  C3 as stated fails: the claim lets a block be replaced only when it is not the generic
  \<^verbatim>\<open>core/embed\<close>, yet a generic block submitted with a Twitter URL is replaced by
  \<^verbatim>\<open>core-embed/twitter\<close>.
\<close>

theorem replace_needs_non_generic_block_counterexample:
  "doServerSideRender js blockPatterns (core_embed_settings js) True
     (constructor (block_props ''core/embed'' (Some ''https://twitter.com/a'')))
   = Inr ((constructor (block_props ''core/embed'' (Some ''https://twitter.com/a'')))
            \<lparr>log := [PreventDefault,
                     OnReplace (CreateBlock ''core-embed/twitter'' (Some ''https://twitter.com/a''))]\<rparr>)
   \<and> findBlock js blockPatterns (Some ''https://twitter.com/a'') = Inr ''core-embed/twitter''
   \<and> name (props (constructor (block_props ''core/embed'' (Some ''https://twitter.com/a'')))) = ''core/embed''"
  by code_simp

subsection \<open>The rendered views\<close>

lemma controls_reading:
  "''Spinner'' \<notin> set (tags [controls c])" "''form'' \<notin> set (tags [controls c])"
  "''figure'' \<notin> set (tags [controls c])" "error_message L \<notin> set (nodes_of [controls c])"
  "raw_markup [controls c] = []" "sandboxed [controls c] = []"
  "Element ''a'' ps kids \<notin> set (nodes_of [controls c])"
  by (simp_all add: controls_def tags_def nodes_of_def raw_markup_def sandboxed_def error_message_def
        opt_prop_def split: option.splits)

lemma reading_Cons:
  "tags (n # m # ms) = tags [n] @ tags (m # ms)"
  "nodes_of (n # m # ms) = nodes_of [n] @ nodes_of (m # ms)"
  "raw_markup (n # m # ms) = raw_markup [n] @ raw_markup (m # ms)"
  "sandboxed (n # m # ms) = sandboxed [n] @ sandboxed (m # ms)"
  by (simp_all add: tags_def nodes_of_def raw_markup_def sandboxed_def)

lemma loading_reading:
  "''Spinner'' \<in> set (tags [loading_indicator L])" "''form'' \<notin> set (tags [loading_indicator L])"
  "''figure'' \<notin> set (tags [loading_indicator L])"
  by (simp_all add: loading_indicator_def tags_def nodes_of_def)

lemma form_reading:
  "''form'' \<in> set (tags [url_form L S c])" "''Spinner'' \<notin> set (tags [url_form L S c])"
  "''figure'' \<notin> set (tags [url_form L S c])"
  "(error_message L \<in> set (nodes_of [url_form L S c])) = error (state c)"
  by (simp_all add: url_form_def Let_def tags_def nodes_of_def error_message_def)

lemma caption_editor_reading:
  "''Spinner'' \<notin> set (tags [caption_editor L c])" "''form'' \<notin> set (tags [caption_editor L c])"
  "raw_markup [caption_editor L c] = []" "sandboxed [caption_editor L c] = []"
  by (simp_all add: caption_editor_def tags_def nodes_of_def raw_markup_def sandboxed_def)

lemma no_preview_reading:
  "raw_markup [no_preview L S u] = []" "sandboxed [no_preview L S u] = []"
  "Element ''a'' [(''href'', Str u)] [Text u] \<in> set (nodes_of [no_preview L S u])"
  "''Spinner'' \<notin> set (tags [no_preview L S u])" "''form'' \<notin> set (tags [no_preview L S u])"
  by (simp_all add: no_preview_def tags_def nodes_of_def raw_markup_def sandboxed_def)

lemma embedWrapper_reading:
  "''Spinner'' \<notin> set (tags [embedWrapper L h c])" "''form'' \<notin> set (tags [embedWrapper L h c])"
  "type (state c) = ''wp-embed'' \<Longrightarrow> raw_markup [embedWrapper L h c] = [html (state c)]"
  "type (state c) = ''wp-embed'' \<Longrightarrow> sandboxed [embedWrapper L h c] = []"
  "type (state c) \<noteq> ''wp-embed'' \<Longrightarrow> raw_markup [embedWrapper L h c] = []"
  "type (state c) \<noteq> ''wp-embed'' \<Longrightarrow> sandboxed [embedWrapper L h c] = [html (state c)]"
  by (auto simp: embedWrapper_def tags_def nodes_of_def raw_markup_def sandboxed_def)

lemma figure_reading:
  "tags [Element ''figure'' ps kids] = ''figure'' # tags kids"
  "raw_markup [Element ''figure'' [(k1, Str v1), (k2, Str v2)] kids] = raw_markup kids"
  "sandboxed [Element ''figure'' ps kids] = sandboxed kids"
  "nodes_of [Element t ps kids] = Element t ps kids # nodes_of kids"
  by (simp_all add: tags_def nodes_of_def raw_markup_def sandboxed_def)

lemma render_frame:
  assumes "\<not> fetching (state c)" and "html (state c) \<noteq> []"
    and "url (attributes (props c)) = Some u" and "parse_host L u = Some h"
  shows "\<exists>tree. render L S c = Inr tree \<and> ''figure'' \<in> set (tags tree)
         \<and> ''Spinner'' \<notin> set (tags tree) \<and> ''form'' \<notin> set (tags tree)
         \<and> (if strip_www h \<in> set HOSTS_NO_PREVIEWS
             then sandboxed tree = [] \<and> raw_markup tree = []
                  \<and> Element ''a'' [(''href'', Str u)] [Text u] \<in> set (nodes_of tree)
             else if type (state c) = ''wp-embed''
             then raw_markup tree = [html (state c)] \<and> sandboxed tree = []
             else sandboxed tree = [html (state c)] \<and> raw_markup tree = [])"
proof -
  let ?inner = "[(if strip_www h \<in> set HOSTS_NO_PREVIEWS then no_preview L S u else embedWrapper L h c),
                 caption_editor L c]"
  let ?fig = "Element ''figure''
                [(''key'', Str ''embed''),
                 (''className'', Str (classnames
                    [(lodash_toString (className (props c)), truthy (className (props c))),
                     (''is-video'', ''video'' = type (state c))]))] ?inner"
  from assms have r: "render L S c = Inr [controls c, ?fig]" by (simp add: render_def Let_def)
  have t: "tags [controls c, ?fig] = tags [controls c] @ ''figure'' # tags ?inner"
    by (simp add: reading_Cons figure_reading)
  have rm: "raw_markup [controls c, ?fig] = raw_markup ?inner"
    by (simp add: reading_Cons figure_reading controls_reading)
  have sb: "sandboxed [controls c, ?fig] = sandboxed ?inner"
    by (simp add: reading_Cons figure_reading controls_reading)
  have nd: "set (nodes_of ?inner) \<subseteq> set (nodes_of [controls c, ?fig])"
    by (simp add: reading_Cons figure_reading) auto
  have i1: "''Spinner'' \<notin> set (tags ?inner)" "''form'' \<notin> set (tags ?inner)"
    by (simp_all add: reading_Cons no_preview_reading embedWrapper_reading(1,2) caption_editor_reading)
  have i2: "strip_www h \<in> set HOSTS_NO_PREVIEWS \<Longrightarrow>
              sandboxed ?inner = [] \<and> raw_markup ?inner = []
              \<and> Element ''a'' [(''href'', Str u)] [Text u] \<in> set (nodes_of ?inner)"
    by (simp add: reading_Cons no_preview_reading caption_editor_reading)
  have i3: "strip_www h \<notin> set HOSTS_NO_PREVIEWS \<Longrightarrow> type (state c) = ''wp-embed'' \<Longrightarrow>
              raw_markup ?inner = [html (state c)] \<and> sandboxed ?inner = []"
    by (simp add: reading_Cons embedWrapper_reading caption_editor_reading)
  have i4: "strip_www h \<notin> set HOSTS_NO_PREVIEWS \<Longrightarrow> type (state c) \<noteq> ''wp-embed'' \<Longrightarrow>
              sandboxed ?inner = [html (state c)] \<and> raw_markup ?inner = []"
    by (simp add: reading_Cons embedWrapper_reading caption_editor_reading)
  show ?thesis
  proof (intro exI conjI)
    show "render L S c = Inr [controls c, ?fig]" by (rule r)
    show "''figure'' \<in> set (tags [controls c, ?fig])" unfolding t by simp
    show "''Spinner'' \<notin> set (tags [controls c, ?fig])"
      unfolding t using controls_reading(1) i1(1) by simp
    show "''form'' \<notin> set (tags [controls c, ?fig])"
      unfolding t using controls_reading(2) i1(2) by simp
    show "if strip_www h \<in> set HOSTS_NO_PREVIEWS
          then sandboxed [controls c, ?fig] = [] \<and> raw_markup [controls c, ?fig] = []
               \<and> Element ''a'' [(''href'', Str u)] [Text u] \<in> set (nodes_of [controls c, ?fig])
          else if type (state c) = ''wp-embed''
          then raw_markup [controls c, ?fig] = [html (state c)] \<and> sandboxed [controls c, ?fig] = []
          else sandboxed [controls c, ?fig] = [html (state c)] \<and> raw_markup [controls c, ?fig] = []"
      unfolding rm sb using i2 i3 i4 nd by auto
  qed
qed

subsection \<open>The continuations of the fetch\<close>

lemma on_fulfilled_unmounted: "unmounting c \<Longrightarrow> on_fulfilled L S u obj c = c"
  by (simp add: on_fulfilled_def)

lemma substring_at_nonempty: "substring_at needle h \<Longrightarrow> needle \<noteq> [] \<Longrightarrow> h \<noteq> []"
  by (cases h) auto

lemma marker_nonempty: "wp_embed_marker \<noteq> []"
  by (simp add: wp_embed_marker_def)

lemma falsy_has_no_marker: "\<not> truthy v \<Longrightarrow> \<not> includes_str v wp_embed_marker"
  by (cases v) (simp_all add: includes_str_def truthy_def marker_nonempty)

text \<open>
  C4. The claim fails on the rejection path. A Twitter block is mounted with its URL, which
  starts the fetch, and is then unmounted. Run after that, the success continuation changes
  nothing, but the failure continuation calls \<^verbatim>\<open>setState\<close> with \<^verbatim>\<open>error: true\<close>.
\<close>

theorem on_rejected_ignores_unmounting:
  "componentWillMount js blockPatterns (settings_of (hd common))
       (constructor (block_props ''core-embed/twitter'' (Some ''https://twitter.com/a'')))
     = Inr (start_fetch (Some ''https://twitter.com/a'')
              (setState (no_patch\<lparr>set_fetching := Some True\<rparr>)
                 (constructor (block_props ''core-embed/twitter'' (Some ''https://twitter.com/a'')))))
   \<and> unmounting (componentWillUnmount (start_fetch (Some ''https://twitter.com/a'')
              (setState (no_patch\<lparr>set_fetching := Some True\<rparr>)
                 (constructor (block_props ''core-embed/twitter'' (Some ''https://twitter.com/a''))))))
   \<and> on_fulfilled js (settings_of (hd common)) (Some ''https://twitter.com/a'')
         (no_response\<lparr>r_html := Some ''<blockquote>a</blockquote>''\<rparr>)
         (componentWillUnmount (start_fetch (Some ''https://twitter.com/a'')
              (setState (no_patch\<lparr>set_fetching := Some True\<rparr>)
                 (constructor (block_props ''core-embed/twitter'' (Some ''https://twitter.com/a''))))))
     = componentWillUnmount (start_fetch (Some ''https://twitter.com/a'')
              (setState (no_patch\<lparr>set_fetching := Some True\<rparr>)
                 (constructor (block_props ''core-embed/twitter'' (Some ''https://twitter.com/a'')))))
   \<and> log (on_rejected (componentWillUnmount (start_fetch (Some ''https://twitter.com/a'')
              (setState (no_patch\<lparr>set_fetching := Some True\<rparr>)
                 (constructor (block_props ''core-embed/twitter'' (Some ''https://twitter.com/a'')))))))
     = [SetState (no_patch\<lparr>set_fetching := Some True\<rparr>),
        SetState (no_patch\<lparr>set_error := Some False, set_fetching := Some True\<rparr>),
        ApiRequest (Some ''https://twitter.com/a''),
        SetState (no_patch\<lparr>set_fetching := Some False, set_error := Some True\<rparr>)]"
  by code_simp

text \<open>
  C5. The claim fails where the response has no \<^verbatim>\<open>provider_name\<close>. The Twitter block, whose
  title gives the slug \<^verbatim>\<open>twitter\<close>, receives a response with \<^verbatim>\<open>html\<close> only: the type is
  \<^verbatim>\<open>rich\<close> and the markup is stored, but the slug stored is the empty string.
\<close>

theorem absent_provider_name_gives_empty_slug:
  "r_provider_name (no_response\<lparr>r_html := Some ''<blockquote>a</blockquote>''\<rparr>) = None
   \<and> state (on_fulfilled js (settings_of (hd common)) (Some ''https://twitter.com/a'')
        (no_response\<lparr>r_html := Some ''<blockquote>a</blockquote>''\<rparr>)
        (start_fetch (Some ''https://twitter.com/a'')
           (constructor (block_props ''core-embed/twitter'' (Some ''https://twitter.com/a'')))))
     = initial_state\<lparr>html := ''<blockquote>a</blockquote>'', type := ''rich'',
         providerNameSlug := Some []\<rparr>
   \<and> kebabCase js (toLower js (title (settings_of (hd common)))) = ''twitter''"
  by code_simp

text \<open>
  C6. Let the request of a mounted component be fulfilled with a payload that contains the
  WordPress marker. A block other than \<^verbatim>\<open>core-embed/wordpress\<close> calls \<^verbatim>\<open>onReplace\<close> with a
  \<^verbatim>\<open>core-embed/wordpress\<close> block carrying the URL and leaves its state alone. The block
  \<^verbatim>\<open>core-embed/wordpress\<close> stores the payload with the type \<^verbatim>\<open>wp-embed\<close>, in the state and,
  for type and slug, in the attributes, and clears \<^verbatim>\<open>fetching\<close>; rendered afterwards, for a
  URL whose host allows previews, it shows the payload as raw markup.
\<close>

theorem wordpress_marker_forces_wp_embed:
  assumes "\<not> unmounting c" and "response_html obj = Some h" and "substring_at wp_embed_marker h"
  shows "(name (props c) \<noteq> ''core-embed/wordpress'' \<longrightarrow>
            log (on_fulfilled L S u obj c) = log c @ [OnReplace (CreateBlock ''core-embed/wordpress'' u)]
            \<and> state (on_fulfilled L S u obj c) = state c)
         \<and> (name (props c) = ''core-embed/wordpress'' \<longrightarrow>
            log (on_fulfilled L S u obj c) =
              log c @ [SetState (no_patch\<lparr>set_html := Some h, set_type := Some ''wp-embed'',
                                   set_providerNameSlug := Some (response_slug L S obj)\<rparr>),
                       SetAttributes ''wp-embed'' (response_slug L S obj),
                       SetState (no_patch\<lparr>set_fetching := Some False\<rparr>)]
            \<and> state (on_fulfilled L S u obj c) =
                (state c)\<lparr>html := h, type := ''wp-embed'',
                  providerNameSlug := Some (response_slug L S obj), fetching := False\<rparr>)
         \<and> (name (props c) = ''core-embed/wordpress'' \<and> url (attributes (props c)) = Some v
              \<and> parse_host L v = Some host \<and> strip_www host \<notin> set HOSTS_NO_PREVIEWS \<longrightarrow>
            (\<exists>tree. render L S (on_fulfilled L S u obj c) = Inr tree
               \<and> raw_markup tree = [h] \<and> sandboxed tree = []))"
proof -
  let ?c' = "on_fulfilled L S u obj c"
  from assms(3) have ne: "h \<noteq> []" by (rule substring_at_nonempty) (rule marker_nonempty)
  with assms(2) have t: "truthy (response_html obj)" by (simp add: truthy_def)
  from assms(2,3) have m: "includes_str (response_html obj) wp_embed_marker"
    by (simp add: includes_str_def)
  have other: "name (props c) \<noteq> ''core-embed/wordpress'' \<longrightarrow>
            log ?c' = log c @ [OnReplace (CreateBlock ''core-embed/wordpress'' u)] \<and> state ?c' = state c"
    using assms(1) m by (simp add: on_fulfilled_def Let_def emit_simps)
  have wp: "name (props c) = ''core-embed/wordpress'' \<longrightarrow>
            log ?c' =
              log c @ [SetState (no_patch\<lparr>set_html := Some h, set_type := Some ''wp-embed'',
                                   set_providerNameSlug := Some (response_slug L S obj)\<rparr>),
                       SetAttributes ''wp-embed'' (response_slug L S obj),
                       SetState (no_patch\<lparr>set_fetching := Some False\<rparr>)]
            \<and> state ?c' =
                (state c)\<lparr>html := h, type := ''wp-embed'',
                  providerNameSlug := Some (response_slug L S obj), fetching := False\<rparr>
            \<and> props ?c' = props c"
    using assms(1,2) t m
    by (simp add: on_fulfilled_def Let_def setState_simps store_embed_simps merge_def no_patch_def)
  have shown: "name (props c) = ''core-embed/wordpress'' \<and> url (attributes (props c)) = Some v
              \<and> parse_host L v = Some host \<and> strip_www host \<notin> set HOSTS_NO_PREVIEWS \<longrightarrow>
            (\<exists>tree. render L S ?c' = Inr tree \<and> raw_markup tree = [h] \<and> sandboxed tree = [])"
  proof
    assume a: "name (props c) = ''core-embed/wordpress'' \<and> url (attributes (props c)) = Some v
              \<and> parse_host L v = Some host \<and> strip_www host \<notin> set HOSTS_NO_PREVIEWS"
    with wp have s: "state ?c' = (state c)\<lparr>html := h, type := ''wp-embed'',
                  providerNameSlug := Some (response_slug L S obj), fetching := False\<rparr>"
      and p: "props ?c' = props c"
      by simp_all
    have "\<exists>tree. render L S ?c' = Inr tree \<and> ''figure'' \<in> set (tags tree)
         \<and> ''Spinner'' \<notin> set (tags tree) \<and> ''form'' \<notin> set (tags tree)
         \<and> (if strip_www host \<in> set HOSTS_NO_PREVIEWS
             then sandboxed tree = [] \<and> raw_markup tree = []
                  \<and> Element ''a'' [(''href'', Str v)] [Text v] \<in> set (nodes_of tree)
             else if type (state ?c') = ''wp-embed''
             then raw_markup tree = [html (state ?c')] \<and> sandboxed tree = []
             else sandboxed tree = [html (state ?c')] \<and> raw_markup tree = [])"
      using a ne by (intro render_frame) (simp_all add: s p)
    with a show "\<exists>tree. render L S ?c' = Inr tree \<and> raw_markup tree = [h] \<and> sandboxed tree = []"
      by (auto simp: s)
  qed
  from other wp shown show ?thesis by blast
qed

theorem wordpress_marker_forces_wp_embed_witness:
  "\<not> unmounting (constructor (block_props ''core/embed'' (Some ''https://make.wordpress.org/a'')))
   \<and> response_html (no_response\<lparr>r_html := Some (''<blockquote '' @ wp_embed_marker @ ''=x>a</blockquote>'')\<rparr>)
       = Some (''<blockquote '' @ wp_embed_marker @ ''=x>a</blockquote>'')
   \<and> substring_at wp_embed_marker (''<blockquote '' @ wp_embed_marker @ ''=x>a</blockquote>'')
   \<and> log (on_fulfilled js (core_embed_settings js) (Some ''https://make.wordpress.org/a'')
          (no_response\<lparr>r_html := Some (''<blockquote '' @ wp_embed_marker @ ''=x>a</blockquote>'')\<rparr>)
          (constructor (block_props ''core/embed'' (Some ''https://make.wordpress.org/a''))))
       = [OnReplace (CreateBlock ''core-embed/wordpress'' (Some ''https://make.wordpress.org/a''))]
   \<and> state (on_fulfilled js (settings_of (common ! 4)) (Some ''https://make.wordpress.org/a'')
          (no_response\<lparr>r_html := Some (''<blockquote '' @ wp_embed_marker @ ''=x>a</blockquote>'')\<rparr>)
          (constructor (block_props ''core-embed/wordpress'' (Some ''https://make.wordpress.org/a''))))
       = initial_state\<lparr>html := ''<blockquote '' @ wp_embed_marker @ ''=x>a</blockquote>'',
           type := ''wp-embed'', providerNameSlug := Some []\<rparr>
   \<and> parse_host js ''https://make.wordpress.org/a'' = Some ''make.wordpress.org''
   \<and> strip_www ''make.wordpress.org'' \<notin> set HOSTS_NO_PREVIEWS
   \<and> (\<exists>tree. render js (settings_of (common ! 4))
          (on_fulfilled js (settings_of (common ! 4)) (Some ''https://make.wordpress.org/a'')
             (no_response\<lparr>r_html := Some (''<blockquote '' @ wp_embed_marker @ ''=x>a</blockquote>'')\<rparr>)
             (constructor (block_props ''core-embed/wordpress'' (Some ''https://make.wordpress.org/a''))))
          = Inr tree
        \<and> raw_markup tree = [''<blockquote '' @ wp_embed_marker @ ''=x>a</blockquote>'']
        \<and> sandboxed tree = [])"
proof -
  let ?v = "''https://make.wordpress.org/a''"
  let ?u = "Some ?v"
  let ?h = "''<blockquote '' @ wp_embed_marker @ ''=x>a</blockquote>''"
  let ?obj = "no_response\<lparr>r_html := Some ?h\<rparr>"
  let ?g = "constructor (block_props ''core/embed'' ?u)"
  let ?w = "constructor (block_props ''core-embed/wordpress'' ?u)"
  let ?W = "settings_of (common ! 4)"
  have m: "\<not> unmounting ?g" "\<not> unmounting ?w" by (simp_all add: constructor_def)
  have p: "response_html ?obj = Some ?h" by code_simp
  have i: "substring_at wp_embed_marker ?h" by code_simp
  have n: "name (props ?g) \<noteq> ''core-embed/wordpress''" "name (props ?w) = ''core-embed/wordpress''"
    by (simp_all add: constructor_def block_props_def)
  have l: "log ?g = []" "state ?w = initial_state" by (simp_all add: constructor_def)
  have sl: "response_slug js ?W ?obj = []" by code_simp
  have uw: "url (attributes (props ?w)) = ?u" by (simp add: constructor_def block_props_def)
  have ph: "parse_host js ?v = Some ''make.wordpress.org''" by code_simp
  have dl: "strip_www ''make.wordpress.org'' \<notin> set HOSTS_NO_PREVIEWS" by code_simp
  from wordpress_marker_forces_wp_embed [OF m(1) p i, of js "core_embed_settings js" ?u] n(1) l(1)
  have a: "log (on_fulfilled js (core_embed_settings js) ?u ?obj ?g)
             = [OnReplace (CreateBlock ''core-embed/wordpress'' ?u)]"
    by simp
  note w = wordpress_marker_forces_wp_embed [OF m(2) p i, of js ?W ?u ?v "''make.wordpress.org''"]
  from w n(2) l(2) sl
  have "state (on_fulfilled js ?W ?u ?obj ?w)
             = initial_state\<lparr>html := ?h, type := ''wp-embed'', providerNameSlug := Some [], fetching := False\<rparr>"
    by simp
  then have b: "state (on_fulfilled js ?W ?u ?obj ?w)
             = initial_state\<lparr>html := ?h, type := ''wp-embed'', providerNameSlug := Some []\<rparr>"
    by (simp add: initial_state_def)
  from w n(2) uw ph dl
  have c: "\<exists>tree. render js ?W (on_fulfilled js ?W ?u ?obj ?w) = Inr tree
             \<and> raw_markup tree = [?h] \<and> sandboxed tree = []"
    by blast
  from m(1) p i a b ph dl c show ?thesis by blast
qed

text \<open>
  C7, amended. Let the request of a mounted component be fulfilled with a response of type
  \<^verbatim>\<open>photo\<close> in which neither \<^verbatim>\<open>html\<close> nor \<^verbatim>\<open>result\<close> is truthy. The markup stored is the
  rendering of \<^verbatim>\<open><p><img /></p>\<close> whose image has the thumbnail URL of the response as
  \<^verbatim>\<open>src\<close>, its title as \<^verbatim>\<open>alt\<close> and the width \<^verbatim>\<open>100%\<close>. That markup, the type and the slug go
  to the state and \<^verbatim>\<open>fetching\<close> is cleared; what goes to the attributes is the type and the
  slug, and nothing else.
\<close>

theorem photo_without_html_is_synthesized:
  assumes "\<not> unmounting c" and "\<not> truthy (r_html obj)" and "\<not> truthy (r_result obj)"
    and "r_type obj = Some ''photo''"
  shows "state (on_fulfilled L S u obj c) =
           (state c)\<lparr>html := renderToString L
                        (Element ''p'' []
                           [Element ''img''
                              [(''src'', opt_prop (r_thumbnail_url obj)),
                               (''alt'', opt_prop (r_title obj)),
                               (''width'', Str ''100%'')] []]),
                     type := ''photo'', providerNameSlug := Some (response_slug L S obj),
                     fetching := False\<rparr>
         \<and> log (on_fulfilled L S u obj c) =
             log c @ [SetState (no_patch\<lparr>set_html := Some (getPhotoHtml L obj), set_type := Some ''photo'',
                                  set_providerNameSlug := Some (response_slug L S obj)\<rparr>),
                      SetAttributes ''photo'' (response_slug L S obj),
                      SetState (no_patch\<lparr>set_fetching := Some False\<rparr>)]
         \<and> written_to_attributes (log (on_fulfilled L S u obj c)) =
             written_to_attributes (log c) @ [''photo'', response_slug L S obj]"
proof -
  from assms(2,3) have f: "\<not> truthy (response_html obj)" by (simp add: response_html_def)
  then have i: "\<not> includes_str (response_html obj) wp_embed_marker"
    by (rule falsy_has_no_marker)
  from assms(4) have t: "response_type obj = ''photo''" by (simp add: response_type_def)
  have l: "log (on_fulfilled L S u obj c) =
             log c @ [SetState (no_patch\<lparr>set_html := Some (getPhotoHtml L obj), set_type := Some ''photo'',
                                  set_providerNameSlug := Some (response_slug L S obj)\<rparr>),
                      SetAttributes ''photo'' (response_slug L S obj),
                      SetState (no_patch\<lparr>set_fetching := Some False\<rparr>)]"
    using assms(1) f i t
    by (simp add: on_fulfilled_def Let_def setState_simps store_embed_simps)
  have s: "state (on_fulfilled L S u obj c) =
           (state c)\<lparr>html := renderToString L
                        (Element ''p'' []
                           [Element ''img''
                              [(''src'', opt_prop (r_thumbnail_url obj)),
                               (''alt'', opt_prop (r_title obj)),
                               (''width'', Str ''100%'')] []]),
                     type := ''photo'', providerNameSlug := Some (response_slug L S obj),
                     fetching := False\<rparr>"
    using assms(1) f i t
    by (simp add: on_fulfilled_def Let_def setState_simps store_embed_simps merge_def no_patch_def
          getPhotoHtml_def photoPreview_def)
  have w: "written_to_attributes (log (on_fulfilled L S u obj c)) =
             written_to_attributes (log c) @ [''photo'', response_slug L S obj]"
    unfolding l by (simp add: written_to_attributes_def)
  from s l w show ?thesis by blast
qed

theorem photo_without_html_is_synthesized_witness:
  "\<not> unmounting (constructor (block_props ''core-embed/flickr'' (Some ''https://flickr.com/photos/a/1'')))
   \<and> \<not> truthy (r_html (no_response\<lparr>r_type := Some ''photo'', r_provider_name := Some ''Flickr'',
                  r_thumbnail_url := Some ''https://live.staticflickr.com/1.jpg'', r_title := Some ''A & B''\<rparr>))
   \<and> \<not> truthy (r_result (no_response\<lparr>r_type := Some ''photo'', r_provider_name := Some ''Flickr'',
                  r_thumbnail_url := Some ''https://live.staticflickr.com/1.jpg'', r_title := Some ''A & B''\<rparr>))
   \<and> r_type (no_response\<lparr>r_type := Some ''photo'', r_provider_name := Some ''Flickr'',
                  r_thumbnail_url := Some ''https://live.staticflickr.com/1.jpg'', r_title := Some ''A & B''\<rparr>)
       = Some ''photo''
   \<and> state (on_fulfilled js (settings_of (common ! 7)) (Some ''https://flickr.com/photos/a/1'')
         (no_response\<lparr>r_type := Some ''photo'', r_provider_name := Some ''Flickr'',
                  r_thumbnail_url := Some ''https://live.staticflickr.com/1.jpg'', r_title := Some ''A & B''\<rparr>)
         (constructor (block_props ''core-embed/flickr'' (Some ''https://flickr.com/photos/a/1''))))
       = initial_state\<lparr>html := ''<p><img src='' @ [CHR 0x22] @ ''https://live.staticflickr.com/1.jpg'' @ [CHR 0x22]
                               @ '' alt='' @ [CHR 0x22] @ ''A &amp; B'' @ [CHR 0x22]
                               @ '' width='' @ [CHR 0x22] @ ''100%'' @ [CHR 0x22] @ ''/></p>'',
                          type := ''photo'', providerNameSlug := Some ''flickr''\<rparr>
   \<and> written_to_attributes
         (log (on_fulfilled js (settings_of (common ! 7)) (Some ''https://flickr.com/photos/a/1'')
            (no_response\<lparr>r_type := Some ''photo'', r_provider_name := Some ''Flickr'',
                  r_thumbnail_url := Some ''https://live.staticflickr.com/1.jpg'', r_title := Some ''A & B''\<rparr>)
            (constructor (block_props ''core-embed/flickr'' (Some ''https://flickr.com/photos/a/1'')))))
       = [''photo'', ''flickr'']"
proof -
  let ?u = "Some ''https://flickr.com/photos/a/1''"
  let ?obj = "no_response\<lparr>r_type := Some ''photo'', r_provider_name := Some ''Flickr'',
                  r_thumbnail_url := Some ''https://live.staticflickr.com/1.jpg'', r_title := Some ''A & B''\<rparr>"
  let ?c = "constructor (block_props ''core-embed/flickr'' ?u)"
  have m: "\<not> unmounting ?c" by (simp add: constructor_def)
  have h: "\<not> truthy (r_html ?obj)" by (simp add: no_response_def truthy_def)
  have r: "\<not> truthy (r_result ?obj)" by (simp add: no_response_def truthy_def)
  have t: "r_type ?obj = Some ''photo''" by simp
  have st: "state ?c = initial_state" by (simp add: constructor_def)
  have sl: "response_slug js (settings_of (common ! 7)) ?obj = ''flickr''" by code_simp
  have mk: "renderToString js
              (Element ''p'' []
                 [Element ''img''
                    [(''src'', opt_prop (r_thumbnail_url ?obj)), (''alt'', opt_prop (r_title ?obj)),
                     (''width'', Str ''100%'')] []])
            = ''<p><img src='' @ [CHR 0x22] @ ''https://live.staticflickr.com/1.jpg'' @ [CHR 0x22]
                               @ '' alt='' @ [CHR 0x22] @ ''A &amp; B'' @ [CHR 0x22]
                               @ '' width='' @ [CHR 0x22] @ ''100%'' @ [CHR 0x22] @ ''/></p>''"
    by code_simp
  have lg: "written_to_attributes (log ?c) = []"
    by (simp add: constructor_def written_to_attributes_def)
  from photo_without_html_is_synthesized [OF m h r t, of js "settings_of (common ! 7)" ?u]
  have "written_to_attributes (log (on_fulfilled js (settings_of (common ! 7)) ?u ?obj ?c))
          = written_to_attributes (log ?c) @ [''photo'', response_slug js (settings_of (common ! 7)) ?obj]"
    by blast
  then have wr: "written_to_attributes (log (on_fulfilled js (settings_of (common ! 7)) ?u ?obj ?c))
              = [''photo'', ''flickr'']"
    by (simp only: lg sl append_Nil)
  from photo_without_html_is_synthesized [OF m h r t, of js "settings_of (common ! 7)" ?u]
  have "state (on_fulfilled js (settings_of (common ! 7)) ?u ?obj ?c) =
          initial_state\<lparr>html := ''<p><img src='' @ [CHR 0x22] @ ''https://live.staticflickr.com/1.jpg'' @ [CHR 0x22]
                               @ '' alt='' @ [CHR 0x22] @ ''A &amp; B'' @ [CHR 0x22]
                               @ '' width='' @ [CHR 0x22] @ ''100%'' @ [CHR 0x22] @ ''/></p>'',
                          type := ''photo'', providerNameSlug := Some ''flickr'', fetching := False\<rparr>"
    unfolding st sl mk by blast
  then have "state (on_fulfilled js (settings_of (common ! 7)) ?u ?obj ?c) =
          initial_state\<lparr>html := ''<p><img src='' @ [CHR 0x22] @ ''https://live.staticflickr.com/1.jpg'' @ [CHR 0x22]
                               @ '' alt='' @ [CHR 0x22] @ ''A &amp; B'' @ [CHR 0x22]
                               @ '' width='' @ [CHR 0x22] @ ''100%'' @ [CHR 0x22] @ ''/></p>'',
                          type := ''photo'', providerNameSlug := Some ''flickr''\<rparr>"
    by (simp add: initial_state_def)
  with m h r t wr show ?thesis by blast
qed

text \<open>
  C7 as stated fails: the markup synthesized for a Flickr photo is stored in the state, but
  the call of \<^verbatim>\<open>setAttributes\<close> gets the type and the slug only.
\<close>

theorem photo_markup_not_in_attributes_counterexample:
  "html (state (on_fulfilled js (settings_of (common ! 7)) (Some ''https://flickr.com/photos/a/1'')
         (no_response\<lparr>r_type := Some ''photo'', r_provider_name := Some ''Flickr'',
                  r_thumbnail_url := Some ''https://live.staticflickr.com/1.jpg'', r_title := Some ''A & B''\<rparr>)
         (constructor (block_props ''core-embed/flickr'' (Some ''https://flickr.com/photos/a/1'')))))
     = ''<p><img src='' @ [CHR 0x22] @ ''https://live.staticflickr.com/1.jpg'' @ [CHR 0x22]
          @ '' alt='' @ [CHR 0x22] @ ''A &amp; B'' @ [CHR 0x22]
          @ '' width='' @ [CHR 0x22] @ ''100%'' @ [CHR 0x22] @ ''/></p>''
   \<and> log (on_fulfilled js (settings_of (common ! 7)) (Some ''https://flickr.com/photos/a/1'')
         (no_response\<lparr>r_type := Some ''photo'', r_provider_name := Some ''Flickr'',
                  r_thumbnail_url := Some ''https://live.staticflickr.com/1.jpg'', r_title := Some ''A & B''\<rparr>)
         (constructor (block_props ''core-embed/flickr'' (Some ''https://flickr.com/photos/a/1''))))
     = [SetState (no_patch\<lparr>set_html := Some (''<p><img src='' @ [CHR 0x22]
                    @ ''https://live.staticflickr.com/1.jpg'' @ [CHR 0x22]
                    @ '' alt='' @ [CHR 0x22] @ ''A &amp; B'' @ [CHR 0x22]
                    @ '' width='' @ [CHR 0x22] @ ''100%'' @ [CHR 0x22] @ ''/></p>''),
                  set_type := Some ''photo'', set_providerNameSlug := Some ''flickr''\<rparr>),
        SetAttributes ''photo'' ''flickr'',
        SetState (no_patch\<lparr>set_fetching := Some False\<rparr>)]
   \<and> html (state (on_fulfilled js (settings_of (common ! 7)) (Some ''https://flickr.com/photos/a/1'')
         (no_response\<lparr>r_type := Some ''photo'', r_provider_name := Some ''Flickr'',
                  r_thumbnail_url := Some ''https://live.staticflickr.com/1.jpg'', r_title := Some ''A & B''\<rparr>)
         (constructor (block_props ''core-embed/flickr'' (Some ''https://flickr.com/photos/a/1'')))))
     \<notin> set (written_to_attributes
         (log (on_fulfilled js (settings_of (common ! 7)) (Some ''https://flickr.com/photos/a/1'')
           (no_response\<lparr>r_type := Some ''photo'', r_provider_name := Some ''Flickr'',
                  r_thumbnail_url := Some ''https://live.staticflickr.com/1.jpg'', r_title := Some ''A & B''\<rparr>)
           (constructor (block_props ''core-embed/flickr'' (Some ''https://flickr.com/photos/a/1''))))))"
  by code_simp

subsection \<open>The views, case by case\<close>

text \<open>
  C9, amended. What \<^verbatim>\<open>render\<close> returns depends on the component through its state, its
  attributes and the properties \<^verbatim>\<open>isSelected\<close> and \<^verbatim>\<open>className\<close> only. While \<^verbatim>\<open>fetching\<close> it
  holds the loading indicator. Otherwise, with empty \<^verbatim>\<open>html\<close>, it holds the URL form, and
  in it the paragraph with the error message exactly when \<^verbatim>\<open>error\<close> is set. Otherwise, for
  a URL that is a string and has a host, it holds the figure: with a link to the URL and
  neither sandboxed nor raw markup when the host, without a leading \<^verbatim>\<open>www.\<close>, is
  \<^verbatim>\<open>facebook.com\<close>; else with the markup rendered raw when the type is \<^verbatim>\<open>wp-embed\<close>; else
  with the markup in a sandbox.
\<close>

theorem render_case_analysis:
  "(state c' = state c \<and> attributes (props c') = attributes (props c)
      \<and> isSelected (props c') = isSelected (props c) \<and> className (props c') = className (props c)
      \<longrightarrow> render L S c' = render L S c)
   \<and> (fetching (state c) \<longrightarrow>
      (\<exists>tree. render L S c = Inr tree \<and> ''Spinner'' \<in> set (tags tree)
         \<and> ''form'' \<notin> set (tags tree) \<and> ''figure'' \<notin> set (tags tree)))
   \<and> (\<not> fetching (state c) \<and> html (state c) = [] \<longrightarrow>
      (\<exists>tree. render L S c = Inr tree \<and> ''form'' \<in> set (tags tree)
         \<and> ''Spinner'' \<notin> set (tags tree) \<and> ''figure'' \<notin> set (tags tree)
         \<and> (Element ''p'' [(''className'', Str ''components-placeholder__error'')]
               [Text (translate L ''Sorry, we could not embed that content.'')]
             \<in> set (nodes_of tree)) = error (state c)))
   \<and> (\<not> fetching (state c) \<and> html (state c) \<noteq> [] \<and> url (attributes (props c)) = Some u
        \<and> parse_host L u = Some h \<longrightarrow>
      (\<exists>tree. render L S c = Inr tree \<and> ''figure'' \<in> set (tags tree)
         \<and> ''Spinner'' \<notin> set (tags tree) \<and> ''form'' \<notin> set (tags tree)
         \<and> (if (if take 4 h = ''www.'' then drop 4 h else h) = ''facebook.com''
             then sandboxed tree = [] \<and> raw_markup tree = []
                  \<and> Element ''a'' [(''href'', Str u)] [Text u] \<in> set (nodes_of tree)
             else if type (state c) = ''wp-embed''
             then raw_markup tree = [html (state c)] \<and> sandboxed tree = []
             else sandboxed tree = [html (state c)] \<and> raw_markup tree = [])))"
proof (intro conjI impI)
  assume "state c' = state c \<and> attributes (props c') = attributes (props c)
      \<and> isSelected (props c') = isSelected (props c) \<and> className (props c') = className (props c)"
  then have e: "state c' = state c" "attributes (props c') = attributes (props c)"
    "isSelected (props c') = isSelected (props c)" "className (props c') = className (props c)"
    by simp_all
  have "controls c' = controls c" by (simp add: controls_def e)
  moreover have "url_form L S c' = url_form L S c" by (simp add: url_form_def e)
  moreover have "\<And>host. embedWrapper L host c' = embedWrapper L host c"
    by (simp add: embedWrapper_def e)
  moreover have "caption_editor L c' = caption_editor L c" by (simp add: caption_editor_def e)
  ultimately show "render L S c' = render L S c"
    by (simp add: render_def e Let_def split: option.splits)
next
  assume "fetching (state c)"
  then have "render L S c = Inr [controls c, loading_indicator L]" by (simp add: render_def)
  then show "\<exists>tree. render L S c = Inr tree \<and> ''Spinner'' \<in> set (tags tree)
         \<and> ''form'' \<notin> set (tags tree) \<and> ''figure'' \<notin> set (tags tree)"
    by (simp add: reading_Cons controls_reading loading_reading)
next
  assume "\<not> fetching (state c) \<and> html (state c) = []"
  then have "render L S c = Inr [controls c, url_form L S c]" by (simp add: render_def)
  then show "\<exists>tree. render L S c = Inr tree \<and> ''form'' \<in> set (tags tree)
         \<and> ''Spinner'' \<notin> set (tags tree) \<and> ''figure'' \<notin> set (tags tree)
         \<and> (Element ''p'' [(''className'', Str ''components-placeholder__error'')]
               [Text (translate L ''Sorry, we could not embed that content.'')]
             \<in> set (nodes_of tree)) = error (state c)"
    using form_reading(4) [of L S c] controls_reading(4) [of L c]
    by (simp add: reading_Cons controls_reading(1-3) form_reading(1-3) error_message_def)
next
  assume "\<not> fetching (state c) \<and> html (state c) \<noteq> [] \<and> url (attributes (props c)) = Some u
        \<and> parse_host L u = Some h"
  then have "\<exists>tree. render L S c = Inr tree \<and> ''figure'' \<in> set (tags tree)
         \<and> ''Spinner'' \<notin> set (tags tree) \<and> ''form'' \<notin> set (tags tree)
         \<and> (if strip_www h \<in> set HOSTS_NO_PREVIEWS
             then sandboxed tree = [] \<and> raw_markup tree = []
                  \<and> Element ''a'' [(''href'', Str u)] [Text u] \<in> set (nodes_of tree)
             else if type (state c) = ''wp-embed''
             then raw_markup tree = [html (state c)] \<and> sandboxed tree = []
             else sandboxed tree = [html (state c)] \<and> raw_markup tree = [])"
    by (intro render_frame) simp_all
  then show "\<exists>tree. render L S c = Inr tree \<and> ''figure'' \<in> set (tags tree)
         \<and> ''Spinner'' \<notin> set (tags tree) \<and> ''form'' \<notin> set (tags tree)
         \<and> (if (if take 4 h = ''www.'' then drop 4 h else h) = ''facebook.com''
             then sandboxed tree = [] \<and> raw_markup tree = []
                  \<and> Element ''a'' [(''href'', Str u)] [Text u] \<in> set (nodes_of tree)
             else if type (state c) = ''wp-embed''
             then raw_markup tree = [html (state c)] \<and> sandboxed tree = []
             else sandboxed tree = [html (state c)] \<and> raw_markup tree = [])"
    by (simp add: strip_www_def HOSTS_NO_PREVIEWS_def)
qed

theorem render_case_analysis_witness:
  "state (componentWillUnmount (on_rejected (start_fetch (Some ''https://www.youtube.com/watch?v=a'')
       (constructor (block_props ''core-embed/youtube'' (Some ''https://www.youtube.com/watch?v=a''))))))
     = state (on_rejected (start_fetch (Some ''https://www.youtube.com/watch?v=a'')
       (constructor (block_props ''core-embed/youtube'' (Some ''https://www.youtube.com/watch?v=a'')))))
   \<and> props (componentWillUnmount (on_rejected (start_fetch (Some ''https://www.youtube.com/watch?v=a'')
       (constructor (block_props ''core-embed/youtube'' (Some ''https://www.youtube.com/watch?v=a''))))))
     = props (on_rejected (start_fetch (Some ''https://www.youtube.com/watch?v=a'')
       (constructor (block_props ''core-embed/youtube'' (Some ''https://www.youtube.com/watch?v=a'')))))
   \<and> render js (settings_of (common ! 1))
         (componentWillUnmount (on_rejected (start_fetch (Some ''https://www.youtube.com/watch?v=a'')
            (constructor (block_props ''core-embed/youtube'' (Some ''https://www.youtube.com/watch?v=a''))))))
     = render js (settings_of (common ! 1))
         (on_rejected (start_fetch (Some ''https://www.youtube.com/watch?v=a'')
            (constructor (block_props ''core-embed/youtube'' (Some ''https://www.youtube.com/watch?v=a'')))))
   \<and> fetching (state (start_fetch (Some ''https://www.youtube.com/watch?v=a'')
       (constructor (block_props ''core-embed/youtube'' (Some ''https://www.youtube.com/watch?v=a'')))))
   \<and> (\<exists>tree. render js (settings_of (common ! 1))
         (start_fetch (Some ''https://www.youtube.com/watch?v=a'')
            (constructor (block_props ''core-embed/youtube'' (Some ''https://www.youtube.com/watch?v=a''))))
         = Inr tree \<and> ''Spinner'' \<in> set (tags tree))
   \<and> error (state (on_rejected (start_fetch (Some ''https://www.youtube.com/watch?v=a'')
       (constructor (block_props ''core-embed/youtube'' (Some ''https://www.youtube.com/watch?v=a''))))))
   \<and> (\<exists>tree. render js (settings_of (common ! 1))
         (on_rejected (start_fetch (Some ''https://www.youtube.com/watch?v=a'')
            (constructor (block_props ''core-embed/youtube'' (Some ''https://www.youtube.com/watch?v=a'')))))
         = Inr tree \<and> ''form'' \<in> set (tags tree)
         \<and> Element ''p'' [(''className'', Str ''components-placeholder__error'')]
               [Text ''Sorry, we could not embed that content.''] \<in> set (nodes_of tree))
   \<and> parse_host js ''https://www.youtube.com/watch?v=a'' = Some ''www.youtube.com''
   \<and> (\<exists>tree. render js (settings_of (common ! 1))
         (on_fulfilled js (settings_of (common ! 1)) (Some ''https://www.youtube.com/watch?v=a'')
            (no_response\<lparr>r_html := Some ''<iframe></iframe>'', r_type := Some ''video''\<rparr>)
            (start_fetch (Some ''https://www.youtube.com/watch?v=a'')
               (constructor (block_props ''core-embed/youtube'' (Some ''https://www.youtube.com/watch?v=a'')))))
         = Inr tree \<and> sandboxed tree = [''<iframe></iframe>''] \<and> raw_markup tree = [])
   \<and> parse_host js ''https://www.facebook.com/a/posts/1'' = Some ''www.facebook.com''
   \<and> (\<exists>tree. render js (settings_of (common ! 2))
         (on_fulfilled js (settings_of (common ! 2)) (Some ''https://www.facebook.com/a/posts/1'')
            (no_response\<lparr>r_html := Some ''<div>a</div>''\<rparr>)
            (start_fetch (Some ''https://www.facebook.com/a/posts/1'')
               (constructor (block_props ''core-embed/facebook'' (Some ''https://www.facebook.com/a/posts/1'')))))
         = Inr tree \<and> sandboxed tree = [] \<and> raw_markup tree = []
           \<and> Element ''a'' [(''href'', Str ''https://www.facebook.com/a/posts/1'')]
                 [Text ''https://www.facebook.com/a/posts/1''] \<in> set (nodes_of tree))"
proof -
  let ?y = "''https://www.youtube.com/watch?v=a''"
  let ?f = "''https://www.facebook.com/a/posts/1''"
  let ?Y = "settings_of (common ! 1)"
  let ?F = "settings_of (common ! 2)"
  let ?a = "start_fetch (Some ?y) (constructor (block_props ''core-embed/youtube'' (Some ?y)))"
  let ?b = "on_rejected ?a"
  let ?b' = "componentWillUnmount ?b"
  let ?c = "on_fulfilled js ?Y (Some ?y)
              (no_response\<lparr>r_html := Some ''<iframe></iframe>'', r_type := Some ''video''\<rparr>) ?a"
  let ?d = "on_fulfilled js ?F (Some ?f) (no_response\<lparr>r_html := Some ''<div>a</div>''\<rparr>)
              (start_fetch (Some ?f) (constructor (block_props ''core-embed/facebook'' (Some ?f))))"
  have tr: "\<And>s. translate js s = s" by (simp add: js_def)
  have s1: "state ?b' = state ?b" "props ?b' = props ?b"
    by (simp_all add: componentWillUnmount_def)
  have a1: "fetching (state ?a)" by code_simp
  have b1: "\<not> fetching (state ?b) \<and> html (state ?b) = []" by code_simp
  have b2: "error (state ?b)" by code_simp
  have c1: "\<not> fetching (state ?c) \<and> html (state ?c) \<noteq> [] \<and> url (attributes (props ?c)) = Some ?y
            \<and> parse_host js ?y = Some ''www.youtube.com''"
    by code_simp
  have c2: "(if take 4 ''www.youtube.com'' = ''www.'' then drop 4 ''www.youtube.com'' else ''www.youtube.com'')
              \<noteq> ''facebook.com''"
    "type (state ?c) \<noteq> ''wp-embed''" "html (state ?c) = ''<iframe></iframe>''"
    by code_simp+
  have d1: "\<not> fetching (state ?d) \<and> html (state ?d) \<noteq> [] \<and> url (attributes (props ?d)) = Some ?f
            \<and> parse_host js ?f = Some ''www.facebook.com''"
    by code_simp
  have d2: "(if take 4 ''www.facebook.com'' = ''www.'' then drop 4 ''www.facebook.com'' else ''www.facebook.com'')
              = ''facebook.com''"
    by code_simp
  from render_case_analysis [of ?b' ?b js ?Y] s1
  have P: "render js ?Y ?b' = render js ?Y ?b" by simp
  from render_case_analysis [of ?a ?a js ?Y] a1
  have A: "\<exists>tree. render js ?Y ?a = Inr tree \<and> ''Spinner'' \<in> set (tags tree)" by blast
  from render_case_analysis [of ?b ?b js ?Y] b1
  have "\<exists>tree. render js ?Y ?b = Inr tree \<and> ''form'' \<in> set (tags tree)
          \<and> (Element ''p'' [(''className'', Str ''components-placeholder__error'')]
                [Text (translate js ''Sorry, we could not embed that content.'')]
              \<in> set (nodes_of tree)) = error (state ?b)"
    by blast
  with b2 have B: "\<exists>tree. render js ?Y ?b = Inr tree \<and> ''form'' \<in> set (tags tree)
             \<and> Element ''p'' [(''className'', Str ''components-placeholder__error'')]
                  [Text ''Sorry, we could not embed that content.''] \<in> set (nodes_of tree)"
    by (simp add: tr)
  from render_case_analysis [of ?c ?c js ?Y ?y "''www.youtube.com''"] c1
  have "\<exists>tree. render js ?Y ?c = Inr tree
          \<and> (if (if take 4 ''www.youtube.com'' = ''www.'' then drop 4 ''www.youtube.com''
                  else ''www.youtube.com'') = ''facebook.com''
              then sandboxed tree = [] \<and> raw_markup tree = []
                   \<and> Element ''a'' [(''href'', Str ?y)] [Text ?y] \<in> set (nodes_of tree)
              else if type (state ?c) = ''wp-embed''
              then raw_markup tree = [html (state ?c)] \<and> sandboxed tree = []
              else sandboxed tree = [html (state ?c)] \<and> raw_markup tree = [])"
    by blast
  with c2 have C: "\<exists>tree. render js ?Y ?c = Inr tree \<and> sandboxed tree = [''<iframe></iframe>'']
                     \<and> raw_markup tree = []"
    by simp
  from render_case_analysis [of ?d ?d js ?F ?f "''www.facebook.com''"] d1
  have "\<exists>tree. render js ?F ?d = Inr tree
          \<and> (if (if take 4 ''www.facebook.com'' = ''www.'' then drop 4 ''www.facebook.com''
                  else ''www.facebook.com'') = ''facebook.com''
              then sandboxed tree = [] \<and> raw_markup tree = []
                   \<and> Element ''a'' [(''href'', Str ?f)] [Text ?f] \<in> set (nodes_of tree)
              else if type (state ?d) = ''wp-embed''
              then raw_markup tree = [html (state ?d)] \<and> sandboxed tree = []
              else sandboxed tree = [html (state ?d)] \<and> raw_markup tree = [])"
    by blast
  with d2 have D: "\<exists>tree. render js ?F ?d = Inr tree \<and> sandboxed tree = [] \<and> raw_markup tree = []
                     \<and> Element ''a'' [(''href'', Str ?f)] [Text ?f] \<in> set (nodes_of tree)"
    by simp
  from c1 have c3: "parse_host js ?y = Some ''www.youtube.com''" by blast
  from d1 have d3: "parse_host js ?f = Some ''www.facebook.com''" by blast
  from s1 P a1 A b2 B c3 C d3 D show ?thesis by blast
qed

text \<open>
  C9 as stated fails twice. Two new \<^verbatim>\<open>core/embed\<close> components with the same state and the
  same attributes render differently when only one of them is selected. And a YouTube block
  whose URL \<^verbatim>\<open>youtu.be/a\<close> has no host, once its markup has arrived, does not render the
  content frame: \<^verbatim>\<open>render\<close> throws a TypeError.
\<close>

theorem render_reads_selection_counterexample:
  "state (constructor (block_props ''core/embed'' None))
     = state (constructor ((block_props ''core/embed'' None)\<lparr>isSelected := True\<rparr>))
   \<and> attributes (props (constructor (block_props ''core/embed'' None)))
     = attributes (props (constructor ((block_props ''core/embed'' None)\<lparr>isSelected := True\<rparr>)))
   \<and> render js (core_embed_settings js) (constructor (block_props ''core/embed'' None))
     \<noteq> render js (core_embed_settings js)
         (constructor ((block_props ''core/embed'' None)\<lparr>isSelected := True\<rparr>))
   \<and> \<not> fetching (state (on_fulfilled js (settings_of (common ! 1)) (Some ''youtu.be/a'')
         (no_response\<lparr>r_html := Some ''<iframe></iframe>'', r_type := Some ''video''\<rparr>)
         (start_fetch (Some ''youtu.be/a'')
            (constructor (block_props ''core-embed/youtube'' (Some ''youtu.be/a''))))))
   \<and> html (state (on_fulfilled js (settings_of (common ! 1)) (Some ''youtu.be/a'')
         (no_response\<lparr>r_html := Some ''<iframe></iframe>'', r_type := Some ''video''\<rparr>)
         (start_fetch (Some ''youtu.be/a'')
            (constructor (block_props ''core-embed/youtube'' (Some ''youtu.be/a''))))))
     = ''<iframe></iframe>''
   \<and> render js (settings_of (common ! 1))
        (on_fulfilled js (settings_of (common ! 1)) (Some ''youtu.be/a'')
           (no_response\<lparr>r_html := Some ''<iframe></iframe>'', r_type := Some ''video''\<rparr>)
           (start_fetch (Some ''youtu.be/a'')
              (constructor (block_props ''core-embed/youtube'' (Some ''youtu.be/a'')))))
     = Inl TypeError"
  by code_simp

text \<open>
  C10. Let the request of a mounted component be fulfilled with a response in which neither
  \<^verbatim>\<open>html\<close> nor \<^verbatim>\<open>result\<close> is truthy and whose type is not \<^verbatim>\<open>photo\<close>. The continuation makes
  one call, \<^verbatim>\<open>setState( { fetching: false } )\<close>: no attribute is written, and of the state
  only \<^verbatim>\<open>fetching\<close> changes. A component that had no markup and no error, as after
  \<^verbatim>\<open>doServerSideRender\<close> started the fetch from the form, then renders the form without the
  error message.
\<close>

theorem empty_response_only_clears_fetching:
  assumes "\<not> unmounting c" and "\<not> truthy (r_html obj)" and "\<not> truthy (r_result obj)"
    and "response_type obj \<noteq> ''photo''"
  shows "log (on_fulfilled L S u obj c) = log c @ [SetState (no_patch\<lparr>set_fetching := Some False\<rparr>)]
         \<and> state (on_fulfilled L S u obj c) = (state c)\<lparr>fetching := False\<rparr>
         \<and> props (on_fulfilled L S u obj c) = props c
         \<and> (html (state c) = [] \<and> \<not> error (state c) \<longrightarrow>
              (\<exists>tree. render L S (on_fulfilled L S u obj c) = Inr tree
                 \<and> ''form'' \<in> set (tags tree) \<and> error_message L \<notin> set (nodes_of tree)))"
proof -
  from assms(2,3) have f: "\<not> truthy (response_html obj)" by (simp add: response_html_def)
  then have i: "\<not> includes_str (response_html obj) wp_embed_marker" by (rule falsy_has_no_marker)
  have e: "on_fulfilled L S u obj c = setState (no_patch\<lparr>set_fetching := Some False\<rparr>) c"
    using assms(1,4) f i by (auto simp: on_fulfilled_def Let_def)
  have s: "state (on_fulfilled L S u obj c) = (state c)\<lparr>fetching := False\<rparr>"
    unfolding e by (simp add: setState_simps merge_def no_patch_def)
  have r: "html (state c) = [] \<and> \<not> error (state c) \<longrightarrow>
              (\<exists>tree. render L S (on_fulfilled L S u obj c) = Inr tree
                 \<and> ''form'' \<in> set (tags tree) \<and> error_message L \<notin> set (nodes_of tree))"
  proof
    assume a: "html (state c) = [] \<and> \<not> error (state c)"
    let ?c' = "on_fulfilled L S u obj c"
    from a s have "render L S ?c' = Inr [controls ?c', url_form L S ?c']"
      by (simp add: render_def)
    moreover from a s have "\<not> error (state ?c')" by simp
    ultimately show "\<exists>tree. render L S ?c' = Inr tree
                 \<and> ''form'' \<in> set (tags tree) \<and> error_message L \<notin> set (nodes_of tree)"
      by (simp add: reading_Cons controls_reading form_reading)
  qed
  show ?thesis unfolding s using r unfolding e by (simp add: setState_simps)
qed

theorem empty_response_only_clears_fetching_witness:
  "\<not> unmounting (start_fetch (Some ''https://example.com/a'')
        (constructor (block_props ''core/embed'' (Some ''https://example.com/a''))))
   \<and> \<not> truthy (r_html (no_response\<lparr>r_type := Some ''link''\<rparr>))
   \<and> \<not> truthy (r_result (no_response\<lparr>r_type := Some ''link''\<rparr>))
   \<and> response_type (no_response\<lparr>r_type := Some ''link''\<rparr>) \<noteq> ''photo''
   \<and> state (on_fulfilled js (core_embed_settings js) (Some ''https://example.com/a'')
        (no_response\<lparr>r_type := Some ''link''\<rparr>)
        (start_fetch (Some ''https://example.com/a'')
           (constructor (block_props ''core/embed'' (Some ''https://example.com/a'')))))
     = initial_state
   \<and> (\<exists>tree. render js (core_embed_settings js)
          (on_fulfilled js (core_embed_settings js) (Some ''https://example.com/a'')
             (no_response\<lparr>r_type := Some ''link''\<rparr>)
             (start_fetch (Some ''https://example.com/a'')
                (constructor (block_props ''core/embed'' (Some ''https://example.com/a'')))))
          = Inr tree \<and> ''form'' \<in> set (tags tree) \<and> error_message js \<notin> set (nodes_of tree))"
proof -
  let ?u = "Some ''https://example.com/a''"
  let ?obj = "no_response\<lparr>r_type := Some ''link''\<rparr>"
  let ?c = "start_fetch ?u (constructor (block_props ''core/embed'' ?u))"
  have m: "\<not> unmounting ?c" by code_simp
  have h: "\<not> truthy (r_html ?obj)" by code_simp
  have r: "\<not> truthy (r_result ?obj)" by code_simp
  have t: "response_type ?obj \<noteq> ''photo''" by code_simp
  have s: "(state ?c)\<lparr>fetching := False\<rparr> = initial_state" by code_simp
  have e: "html (state ?c) = [] \<and> \<not> error (state ?c)" by code_simp
  from empty_response_only_clears_fetching [OF m h r t, of js "core_embed_settings js" ?u] s e
  have "state (on_fulfilled js (core_embed_settings js) ?u ?obj ?c) = initial_state
        \<and> (\<exists>tree. render js (core_embed_settings js)
               (on_fulfilled js (core_embed_settings js) ?u ?obj ?c) = Inr tree
               \<and> ''form'' \<in> set (tags tree) \<and> error_message js \<notin> set (nodes_of tree))"
    by simp
  with m h r t show ?thesis by blast
qed

subsection \<open>Saving\<close>

lemma runs_word:
  "list_all (\<lambda>c. \<not> sep c) w \<Longrightarrow> runs sep acc (w @ rest) = runs sep (acc @ w) rest"
  by (induction w arbitrary: acc) simp_all

lemma class_list_join_with:
  "list_all (\<lambda>w. w \<noteq> [] \<and> list_all (\<lambda>x. x \<noteq> c) w) ws \<Longrightarrow>
   runs (\<lambda>x. x = c) [] (join_with [c] ws) = ws"
proof (induction ws rule: induct_list012)
  case 1
  show ?case by simp
next
  case (2 w)
  then have "runs (\<lambda>x. x = c) [] (w @ []) = runs (\<lambda>x. x = c) ([] @ w) []"
    by (intro runs_word) simp
  with 2 show ?case by simp
next
  case (3 w v ws)
  then have "runs (\<lambda>x. x = c) [] (w @ [c] @ join_with [c] (v # ws))
             = runs (\<lambda>x. x = c) ([] @ w) ([c] @ join_with [c] (v # ws))"
    by (intro runs_word) simp
  with 3 show ?case by simp
qed

lemma classnames_saved:
  "classnames
     [(''wp-block-embed'', True),
      (''align'' @ template (align a), truthy (align a)),
      (''is-type-'' @ template (attr_type a), truthy (attr_type a)),
      (''is-provider-'' @ template (attr_providerNameSlug a), truthy (attr_providerNameSlug a))]
   = join_with '' '' (saved_classes a)"
  by (simp add: classnames_def saved_classes_def optional_class_def truthy_def template_def
        split: option.splits)

lemma optional_class_words:
  "space_free v \<Longrightarrow> list_all (\<lambda>c. c \<noteq> CHR '' '') p \<Longrightarrow> p \<noteq> [] \<Longrightarrow>
   list_all (\<lambda>w. w \<noteq> [] \<and> list_all (\<lambda>c. c \<noteq> CHR '' '') w) (optional_class p v)"
  by (simp add: optional_class_def space_free_def split: option.splits)

text \<open>
  C8. \<^verbatim>\<open>save\<close> returns \<^verbatim>\<open>null\<close> for a URL that is undefined or empty. For any other URL it
  returns a \<^verbatim>\<open>figure\<close> whose only property is the class name, whose first child is the text
  of the URL between two newlines, and whose remaining children hold a \<^verbatim>\<open>figcaption\<close>, with
  the caption as its content, exactly when the caption is not empty. The class name joins
  with spaces \<^verbatim>\<open>wp-block-embed\<close> and, each exactly when its value is set, \<^verbatim>\<open>align<align>\<close>,
  \<^verbatim>\<open>is-type-<type>\<close> and \<^verbatim>\<open>is-provider-<slug>\<close>; when the three values hold no space, these
  are the classes of its class list.
\<close>

theorem save_contract:
  "(\<not> truthy (url a) \<longrightarrow> save a = None)
   \<and> (url a = Some u \<and> u \<noteq> [] \<longrightarrow>
        (\<exists>cls kids. save a = Some (Element ''figure'' [(''className'', Str cls)]
                                   (Text ([CHR 0x0A] @ u @ [CHR 0x0A]) # kids))
           \<and> cls = join_with '' '' (saved_classes a)
           \<and> (space_free (align a) \<and> space_free (attr_type a) \<and> space_free (attr_providerNameSlug a)
                \<longrightarrow> class_list cls = saved_classes a)
           \<and> (''figcaption'' \<in> set (tags kids)) = (caption a \<noteq> [])
           \<and> (caption a \<noteq> [] \<longrightarrow> kids = [Element ''figcaption'' [] (caption a)])))"
proof (intro conjI impI)
  assume "\<not> truthy (url a)"
  then show "save a = None" by (simp add: save_def)
next
  assume u: "url a = Some u \<and> u \<noteq> []"
  let ?kids = "[if caption a \<noteq> [] then Element ''figcaption'' [] (caption a) else Nothing]"
  let ?cls = "join_with '' '' (saved_classes a)"
  from u have s: "save a = Some (Element ''figure'' [(''className'', Str ?cls)]
                                   (Text ([CHR 0x0A] @ u @ [CHR 0x0A]) # ?kids))"
    unfolding save_def Let_def classnames_saved by (simp add: truthy_def)
  have w: "space_free (align a) \<and> space_free (attr_type a) \<and> space_free (attr_providerNameSlug a)
             \<longrightarrow> class_list ?cls = saved_classes a"
  proof
    assume f: "space_free (align a) \<and> space_free (attr_type a) \<and> space_free (attr_providerNameSlug a)"
    have "list_all (\<lambda>w. w \<noteq> [] \<and> list_all (\<lambda>c. c \<noteq> CHR '' '') w) (saved_classes a)"
      using f by (simp add: saved_classes_def optional_class_words)
    then show "class_list ?cls = saved_classes a"
      unfolding class_list_def using class_list_join_with [of "CHR '' ''" "saved_classes a"] by simp
  qed
  have t: "(''figcaption'' \<in> set (tags ?kids)) = (caption a \<noteq> [])"
    by (simp add: tags_def nodes_of_def)
  show "\<exists>cls kids. save a = Some (Element ''figure'' [(''className'', Str cls)]
                                   (Text ([CHR 0x0A] @ u @ [CHR 0x0A]) # kids))
           \<and> cls = join_with '' '' (saved_classes a)
           \<and> (space_free (align a) \<and> space_free (attr_type a) \<and> space_free (attr_providerNameSlug a)
                \<longrightarrow> class_list cls = saved_classes a)
           \<and> (''figcaption'' \<in> set (tags kids)) = (caption a \<noteq> [])
           \<and> (caption a \<noteq> [] \<longrightarrow> kids = [Element ''figcaption'' [] (caption a)])"
    using s w t by (intro exI [of _ ?cls] exI [of _ ?kids]) simp
qed

theorem save_contract_witness:
  "\<not> truthy (url (attributes (block_props ''core/embed'' (Some []))))
   \<and> save (attributes (block_props ''core/embed'' (Some []))) = None
   \<and> url ((attributes (block_props ''core-embed/youtube'' (Some ''https://youtu.be/a'')))
            \<lparr>align := Some ''wide'', attr_type := Some ''video'',
             attr_providerNameSlug := Some ''youtube''\<rparr>) = Some ''https://youtu.be/a''
   \<and> ''https://youtu.be/a'' \<noteq> []
   \<and> space_free (Some ''wide'') \<and> space_free (Some ''video'') \<and> space_free (Some ''youtube'')
   \<and> (\<exists>cls kids. save ((attributes (block_props ''core-embed/youtube'' (Some ''https://youtu.be/a'')))
            \<lparr>align := Some ''wide'', attr_type := Some ''video'',
             attr_providerNameSlug := Some ''youtube''\<rparr>)
          = Some (Element ''figure'' [(''className'', Str cls)]
                    (Text ([CHR 0x0A] @ ''https://youtu.be/a'' @ [CHR 0x0A]) # kids))
        \<and> cls = ''wp-block-embed alignwide is-type-video is-provider-youtube''
        \<and> class_list cls = [''wp-block-embed'', ''alignwide'', ''is-type-video'', ''is-provider-youtube'']
        \<and> ''figcaption'' \<notin> set (tags kids))"
proof -
  let ?e = "attributes (block_props ''core/embed'' (Some []))"
  let ?a = "(attributes (block_props ''core-embed/youtube'' (Some ''https://youtu.be/a'')))
            \<lparr>align := Some ''wide'', attr_type := Some ''video'',
             attr_providerNameSlug := Some ''youtube''\<rparr>"
  have e: "\<not> truthy (url ?e)" by code_simp
  have u: "url ?a = Some ''https://youtu.be/a'' \<and> ''https://youtu.be/a'' \<noteq> []" by code_simp
  have f: "space_free (align ?a) \<and> space_free (attr_type ?a) \<and> space_free (attr_providerNameSlug ?a)"
    by code_simp
  have f': "space_free (Some ''wide'') \<and> space_free (Some ''video'') \<and> space_free (Some ''youtube'')"
    by code_simp
  have c: "saved_classes ?a = [''wp-block-embed'', ''alignwide'', ''is-type-video'', ''is-provider-youtube'']"
    by code_simp
  have j: "join_with '' '' (saved_classes ?a) = ''wp-block-embed alignwide is-type-video is-provider-youtube''"
    by code_simp
  have k: "caption ?a = []" by code_simp
  from save_contract [of ?e] e have E: "save ?e = None" by blast
  from save_contract [of ?a "''https://youtu.be/a''"] u f
  have "\<exists>cls kids. save ?a = Some (Element ''figure'' [(''className'', Str cls)]
                                   (Text ([CHR 0x0A] @ ''https://youtu.be/a'' @ [CHR 0x0A]) # kids))
           \<and> cls = join_with '' '' (saved_classes ?a)
           \<and> class_list cls = saved_classes ?a
           \<and> (''figcaption'' \<in> set (tags kids)) = (caption ?a \<noteq> [])"
    by blast
  then have A: "\<exists>cls kids. save ?a = Some (Element ''figure'' [(''className'', Str cls)]
                                   (Text ([CHR 0x0A] @ ''https://youtu.be/a'' @ [CHR 0x0A]) # kids))
        \<and> cls = ''wp-block-embed alignwide is-type-video is-provider-youtube''
        \<and> class_list cls = [''wp-block-embed'', ''alignwide'', ''is-type-video'', ''is-provider-youtube'']
        \<and> ''figcaption'' \<notin> set (tags kids)"
    unfolding c j k by simp
  from e E u f' A show ?thesis by blast
qed

end
